theory Spec2Isabelle
  imports Complex_Main "HOL-Library.Word"
begin

section \<open>Data model\<close>

text \<open>
  The session engine of the speech-dialogue gateway: one \<open>WebSocketConnection\<close> per device,
  holding a \<open>ConnectionState\<close> (model/connection.go), the dialogue history and the channels
  between its goroutines (websocket/websocket.go).

  Conventions of the embedding.
  \<^item> A Go \<open>[]byte\<close> is a list of 8-bit words; a \<open>[][]byte\<close> is a list of those. A nil slice
    and an empty slice are both \<open>[]\<close>: the code only takes \<open>len\<close>, appends and ranges.
  \<^item> The \<open>float64\<close> time stamps of the state hold \<open>time.Now().UnixMilli()\<close> or
    \<open>time.Now().Unix() * 1000\<close>, integers far below \<open>2^53\<close>, so the conversions to and from
    \<open>int64\<close> are exact and the stamps are integers here.
  \<^item> A buffered Go channel is the list of the values it holds, oldest first.
  \<^item> Records keep the names of the Go structs and fields; a field name that several structs
    share carries a prefix (\<open>asr_Status\<close>, \<open>vad_Status\<close>, \<open>cmd_State\<close>).
  \<^item> Everything outside the process (the clock, the Opus decoder, the HTTP collaborators) is an
    oracle passed to the function that consults it; the functions place no assumption on it.
\<close>

type_synonym byte = "8 word"
type_synonym bytes = "byte list"

record ConnectionState =
  UserId :: string
  SessionId :: string
  RoleId :: string
  DeviceId :: string
  ClientIP :: string
  ClientAbort :: bool
  ClientListenMode :: string
  ClientAudioBuffer :: bytes
  ClientHaveVoice :: bool
  ClientHaveVoiceLastTime :: int
  ClientNoVoiceLastTime :: int
  ClientVoiceStop :: bool
  ASRAudio :: "bytes list"
  ASRServerReceive :: bool
  LLMFlag :: bool
  IoTReceived :: bool
  IoTHandled :: bool
  Description :: string
  States :: string
  StartSpeakTime :: int
  TTSDuration :: real

text \<open>The errors the modelled functions return (Go builds them with \<open>fmt.Errorf\<close>).\<close>

datatype error =
    ErrNoAudio
  | ErrAudioTooLarge int int
  | ErrASRSend
  | ErrASRRead
  | ErrASRStatusCode int
  | ErrASRParse
  | ErrASRStatus string
  | ErrJSONUnmarshal
  | ErrUnknownType string
  | ErrLLMSend
  | ErrLLMStatusCode int
  | ErrLLMRead
  | ErrTTS

text \<open>
  The goroutines of a connection run concurrently, and what the run-time decides for one of
  them is an oracle as well. Every blocking send of the session is a \<open>select\<close> between the
  cancellation of the connection's context and the send (\<open>sendResponse\<close>, \<open>send2LLM\<close>).
  A \<open>sched\<close> says how such a \<open>select\<close> is resolved where the code leaves it open:
  \<open>pick_send\<close> is the case Go picks when both cases are ready (true: the send), and
  \<open>resumed\<close> is what ends the wait of a send that found the channel full on a live context:
  the receiver has taken a value, the context has been cancelled, or both have happened before
  the sender runs again.
\<close>

datatype resume = ByReceiver | ByCancel | ByBoth

record sched =
  pick_send :: bool
  resumed :: resume

section \<open>Recognition dispatcher (package asr)\<close>

record ASRConfig =
  asr_SampleRate :: int
  asr_ChannelCount :: int
  asr_Language :: string
  ASRServerURL :: string
  asr_Timeout :: int
  MaxAudioSize :: int

definition DefaultASRConfig :: ASRConfig where
  "DefaultASRConfig =
     \<lparr> asr_SampleRate = 16000, asr_ChannelCount = 1, asr_Language = ''zh-CN'',
       ASRServerURL = ''http://localhost:8001/asr'', asr_Timeout = 10,
       MaxAudioSize = 1024 * 1024 * 2 \<rparr>"

text \<open>\<open>getASRProcessor\<close>: the singleton processor is built once from the default configuration.\<close>

definition getASRProcessor :: ASRConfig where
  "getASRProcessor = DefaultASRConfig"

text \<open>
  The request body handed to the recognition service (the chunks are sent base64-encoded, an
  injective encoding left out here) and its JSON answer.
\<close>

record ASRRequest =
  req_AudioData :: "bytes list"
  req_SessionId :: string
  req_channel_count :: int
  req_language :: string

record ASRResponse =
  asr_Status :: string
  asr_Text :: string

text \<open>
  One HTTP exchange with the recognition service, as \<open>callASRService\<close> sees it: the request
  cannot be sent (this is where a timeout shows), the body cannot be read, or a status code
  arrives with a body that parses as an \<open>ASRResponse\<close> or does not.
\<close>

datatype asr_exchange =
    ASRSendFailed
  | ASRReadFailed
  | ASRAnswered int "ASRResponse option"

definition callASRService ::
    "ASRConfig \<Rightarrow> (ASRRequest \<Rightarrow> asr_exchange) \<Rightarrow> ConnectionState \<Rightarrow> error + string" where
  "callASRService a http conn =
     (let requestBody = \<lparr> req_AudioData = ASRAudio conn, req_SessionId = SessionId conn,
                           req_channel_count = asr_ChannelCount a,
                           req_language = asr_Language a \<rparr>
      in case http requestBody of
           ASRSendFailed \<Rightarrow> Inl ErrASRSend
         | ASRReadFailed \<Rightarrow> Inl ErrASRRead
         | ASRAnswered code body \<Rightarrow>
             if code \<noteq> 200 then Inl (ErrASRStatusCode code)
             else (case body of
                     None \<Rightarrow> Inl ErrASRParse
                   | Some asrResponse \<Rightarrow>
                       if asr_Status asrResponse \<noteq> ''success''
                       then Inl (ErrASRStatus (asr_Status asrResponse))
                       else Inr (asr_Text asrResponse)))"

text \<open>
  \<open>ProcessASR\<close> returns the result, the connection state it leaves, and the list of requests it
  made to the recognition service (the audio of each), so that "the collaborator was not
  invoked" is the statement that this list is empty.
\<close>

definition ProcessASR ::
    "(ASRRequest \<Rightarrow> asr_exchange) \<Rightarrow> ConnectionState
       \<Rightarrow> (error + string) \<times> ConnectionState \<times> bytes list list" where
  "ProcessASR http conn =
     (let processor = getASRProcessor in
      if length (ASRAudio conn) = 0 then (Inl ErrNoAudio, conn, [])
      else
        let len = sum_list (map (\<lambda>chunk. int (length chunk)) (ASRAudio conn)) in
        if len > MaxAudioSize processor
        then (Inl (ErrAudioTooLarge len (MaxAudioSize processor)), conn, [])
        else (case callASRService processor http conn of
                Inl err \<Rightarrow> (Inl err, conn, [ASRAudio conn])
              | Inr text \<Rightarrow> (Inr text, conn\<lparr>ASRAudio := []\<rparr>, [ASRAudio conn])))"

section \<open>Audio segmenter (package vad)\<close>

record VADConfig =
  EnergyThreshold :: real
  SilenceThresholdMs :: int
  vad_SampleRate :: int
  FrameSize :: int
  VADServerURL :: string

definition DefaultVADConfig :: VADConfig where
  "DefaultVADConfig =
     \<lparr> EnergyThreshold = 1 / 100, SilenceThresholdMs = 500, vad_SampleRate = 16000,
       FrameSize = 512, VADServerURL = ''http://localhost:8001/vad'' \<rparr>"

text \<open>\<open>getVADProcessor\<close>: the singleton processor, built once from the default configuration.\<close>

definition getVADProcessor :: VADConfig where
  "getVADProcessor = DefaultVADConfig"

record VADRequest =
  vreq_AudioData :: bytes
  vreq_sample_rate :: int
  vreq_frame_size :: int

record VADResponse =
  vad_Status :: string
  vad_Result :: bool

text \<open>
  One HTTP exchange with the voice-activity service. \<open>callVADService\<close> looks neither at the
  HTTP status code nor at the \<open>status\<close> field: whatever parses yields its \<open>result\<close>.
\<close>

datatype vad_exchange =
    VADSendFailed
  | VADReadFailed
  | VADAnswered "VADResponse option"

datatype vad_error = ErrVADSend | ErrVADRead | ErrVADParse

definition callVADService ::
    "VADConfig \<Rightarrow> (VADRequest \<Rightarrow> vad_exchange) \<Rightarrow> bytes \<Rightarrow> vad_error + bool" where
  "callVADService v http audioData =
     (let frameSize = FrameSize v * 2;
          audioData' =
            (if int (length audioData) > frameSize then take (nat frameSize) audioData
             else if int (length audioData) < frameSize
               then audioData @ replicate (nat (frameSize - int (length audioData))) 0
             else audioData);
          reqData = \<lparr> vreq_AudioData = audioData', vreq_sample_rate = vad_SampleRate v,
                      vreq_frame_size = FrameSize v \<rparr>
      in case http reqData of
           VADSendFailed \<Rightarrow> Inl ErrVADSend
         | VADReadFailed \<Rightarrow> Inl ErrVADRead
         | VADAnswered None \<Rightarrow> Inl ErrVADParse
         | VADAnswered (Some vadResp) \<Rightarrow> Inr (vad_Result vadResp))"

text \<open>
  What one call of \<open>handleAudioMessage\<close> finds outside the process: the Opus decoder
  (\<open>None\<close> is a decoding error), the voice-activity service at its \<open>k\<close>-th request of this
  call, the millisecond clock as read while the \<open>k\<close>-th analysis window is handled (a window
  reads it at most once: in the silence test or in the voiced branch), the second clock read by
  the handler itself, the recognition service, and how the \<open>select\<close> of \<open>send2LLM\<close> is
  resolved.
\<close>

record audio_env =
  decodeOpus :: "bytes \<Rightarrow> bytes option"
  vad_http :: "nat \<Rightarrow> VADRequest \<Rightarrow> vad_exchange"
  now_milli :: "nat \<Rightarrow> int"
  now_unix :: int
  asr_http :: "ASRRequest \<Rightarrow> asr_exchange"
  llm_sched :: sched

text \<open>The body of the loop of \<open>processVAD\<close> for the \<open>k\<close>-th window \<open>chunk\<close> (vad.go 175-196).\<close>

definition vad_window ::
    "VADConfig \<Rightarrow> audio_env \<Rightarrow> nat \<Rightarrow> bytes \<Rightarrow> ConnectionState \<Rightarrow> bool \<times> ConnectionState" where
  "vad_window v env k chunk conn =
     (let vadResult = (case callVADService v (vad_http env k) chunk of
                         Inl err \<Rightarrow> False
                       | Inr r \<Rightarrow> r);
          clientHaveVoice = vadResult;
          conn1 = (if ClientHaveVoice conn \<and> \<not> clientHaveVoice
                   then (let stopDuration = now_milli env k - ClientHaveVoiceLastTime conn in
                         if stopDuration \<ge> SilenceThresholdMs v
                         then conn\<lparr>ClientVoiceStop := True\<rparr> else conn)
                   else conn);
          conn2 = (if clientHaveVoice
                   then conn1\<lparr>ClientHaveVoice := True, ClientHaveVoiceLastTime := now_milli env k\<rparr>
                   else conn1)
      in (clientHaveVoice, conn2))"

text \<open>
  The loop of \<open>processVAD\<close> for a positive window size \<open>frameSize\<close> (in bytes): while the
  accumulator holds a full window, cut it off and handle it. \<open>k\<close> counts the windows handled so
  far in this call, \<open>clientHaveVoice\<close> is the classification of the last one.
\<close>

function vad_loop ::
    "VADConfig \<Rightarrow> nat \<Rightarrow> audio_env \<Rightarrow> nat \<Rightarrow> bool \<Rightarrow> ConnectionState \<Rightarrow> bool \<times> ConnectionState" where
  "vad_loop v frameSize env k clientHaveVoice conn =
     (if 0 < frameSize \<and> length (ClientAudioBuffer conn) \<ge> frameSize
      then (let chunk = take frameSize (ClientAudioBuffer conn);
                conn1 = conn\<lparr>ClientAudioBuffer := drop frameSize (ClientAudioBuffer conn)\<rparr>;
                (clientHaveVoice', conn2) = vad_window v env k chunk conn1
            in vad_loop v frameSize env (Suc k) clientHaveVoice' conn2)
      else (clientHaveVoice, conn))"
  by pat_completeness auto
termination
  by (relation "measure (\<lambda>(v, frameSize, env, k, b, conn). length (ClientAudioBuffer conn))")
     (auto simp: vad_window_def Let_def split: if_splits)

text \<open>
  \<open>processVAD\<close>: decode (\<open>pcmData\<close>: on a decoding error the raw frame is taken as PCM),
  append to the accumulator, run the loop. It returns the last window's classification and
  always a nil error. A window size \<open>\<le> 0\<close> makes the Go loop run forever (zero) or panic
  on the slice (negative): the result \<open>None\<close>. The program's only processor has 512 samples
  per window.
\<close>

definition pcmData :: "audio_env \<Rightarrow> bytes \<Rightarrow> bytes" where
  "pcmData env audioData =
     (case decodeOpus env audioData of None \<Rightarrow> audioData | Some pcm \<Rightarrow> pcm)"

definition processVAD ::
    "VADConfig \<Rightarrow> audio_env \<Rightarrow> ConnectionState \<Rightarrow> bytes
       \<Rightarrow> (bool \<times> vad_error option \<times> ConnectionState) option" where
  "processVAD v env conn audioData =
     (let conn1 = conn\<lparr>ClientAudioBuffer := ClientAudioBuffer conn @ pcmData env audioData\<rparr>;
          frameSize = FrameSize v * 2
      in if frameSize \<le> 0 then None
         else (case vad_loop v (nat frameSize) env 0 False conn1 of
                 (clientHaveVoice, conn2) \<Rightarrow> Some (clientHaveVoice, None, conn2)))"

text \<open>
  \<open>IsVAD\<close> runs the singleton processor and turns an error into "no voice". For that
  processor \<open>processVAD\<close> always returns (\<open>processVAD_default_returns\<close> below), so the first
  case never applies.
\<close>

definition IsVAD :: "audio_env \<Rightarrow> ConnectionState \<Rightarrow> bytes \<Rightarrow> bool \<times> ConnectionState" where
  "IsVAD env conn audioData =
     (case processVAD getVADProcessor env conn audioData of
        None \<Rightarrow> (False, conn)
      | Some (haveVoice, Some err, conn') \<Rightarrow> (False, conn')
      | Some (haveVoice, None, conn') \<Rightarrow> (haveVoice, conn'))"

section \<open>Session (package websocket)\<close>

record Dialogue =
  Role :: string
  Content :: string

record CommandAudioParams =
  Format :: string
  cmd_SampleRate :: int
  Channels :: int
  FrameDuration :: int

record ConnectionCommand =
  cmd_Type :: string
  cmd_Version :: int
  cmd_Session :: string
  cmd_Transport :: string
  cmd_AudioParams :: CommandAudioParams
  cmd_State :: string
  cmd_Mode :: string
  cmd_Text :: string
  cmd_Reason :: string
  cmd_Description :: string
  cmd_States :: string
  cmd_Emotion :: string

text \<open>The zero value of \<open>ConnectionCommand\<close>, from which the code's struct literals start.\<close>

definition zeroCommand :: ConnectionCommand where
  "zeroCommand =
     \<lparr> cmd_Type = [], cmd_Version = 0, cmd_Session = [], cmd_Transport = [],
       cmd_AudioParams = \<lparr> Format = [], cmd_SampleRate = 0, Channels = 0, FrameDuration = 0 \<rparr>,
       cmd_State = [], cmd_Mode = [], cmd_Text = [], cmd_Reason = [], cmd_Description = [],
       cmd_States = [], cmd_Emotion = [] \<rparr>"

text \<open>
  An outbound message. A control frame carries the command it is the JSON encoding of
  (\<open>json.Marshal\<close> of these string and integer fields does not fail); an audio frame
  carries its bytes.
\<close>

datatype frame_data = JSONData ConnectionCommand | BinaryData bytes | NoData

record ResponseMessage =
  MessageType :: int
  Data :: frame_data

definition TextMessage :: int where "TextMessage = 1"
definition BinaryMessage :: int where "BinaryMessage = 2"

record WebSocketConfig =
  ws_SampleRate :: int
  CloseConnectionTimeout :: real

record LLMConfig =
  llm_URL :: string
  llm_Timeout :: int
  SystemPrompt :: string

record Config =
  WebSocket :: WebSocketConfig
  LLM :: LLMConfig

text \<open>
  \<open>ctx_done\<close> says that the connection's context has been cancelled. The three channels
  have capacity 10 (\<open>NewWebSocketConnection\<close>).
\<close>

record WebSocketConnection =
  config :: Config
  responseChan :: "ResponseMessage list"
  llmChan :: "string list"
  ttsChan :: "string list"
  dialogueStore :: "Dialogue list"
  ctx_done :: bool
  connectionState :: ConnectionState

definition chanCapacity :: nat where
  "chanCapacity = 10"

text \<open>
  The \<open>select\<close> of \<open>sendResponse\<close> and of \<open>send2LLM\<close>
  (\<open>select { case <-ctx.Done(): return; case ch <- x: }\<close>) on a channel that holds \<open>chan\<close>,
  with the context cancelled or not. The result is the context and the channel when the
  \<open>select\<close> returns.
  \<^item> Room in the channel, live context: only the send is ready, the value joins the channel.
  \<^item> Room, cancelled context: both cases are ready and Go picks one of them.
  \<^item> Channel full, cancelled context: only the cancellation is ready, nothing is sent.
  \<^item> Channel full, live context: the goroutine is suspended. It runs again when the receiver
    has taken the oldest value (the value then joins the channel), when the context has been
    cancelled (nothing is sent), or when both have happened (Go picks one case).
  What the receiver does with the value it took is the receiver's own activity. A send that is
  never resumed leaves its goroutine suspended for good and has no result; the model covers the
  runs in which a suspended send is resumed.
\<close>

definition guardedSend :: "sched \<Rightarrow> bool \<Rightarrow> 'a list \<Rightarrow> 'a \<Rightarrow> bool \<times> 'a list" where
  "guardedSend s cancelled chan x =
     (if length chan < chanCapacity
      then (cancelled, if cancelled \<and> \<not> pick_send s then chan else chan @ [x])
      else if cancelled then (True, chan)
      else (case resumed s of
              ByReceiver \<Rightarrow> (False, tl chan @ [x])
            | ByCancel \<Rightarrow> (True, chan)
            | ByBoth \<Rightarrow> (True, if pick_send s then tl chan @ [x] else tl chan)))"

definition sendResponse ::
    "sched \<Rightarrow> WebSocketConnection \<Rightarrow> int \<Rightarrow> frame_data \<Rightarrow> WebSocketConnection" where
  "sendResponse s wsc messageType data =
     (case guardedSend s (ctx_done wsc) (responseChan wsc)
             \<lparr> MessageType = messageType, Data = data \<rparr> of
        (cancelled, chan) \<Rightarrow> wsc\<lparr>responseChan := chan, ctx_done := cancelled\<rparr>)"

definition send2LLM :: "sched \<Rightarrow> WebSocketConnection \<Rightarrow> string \<Rightarrow> WebSocketConnection" where
  "send2LLM s wsc text =
     (case guardedSend s (ctx_done wsc) (llmChan wsc) text of
        (cancelled, chan) \<Rightarrow> wsc\<lparr>llmChan := chan, ctx_done := cancelled\<rparr>)"

text \<open>The reset that ends the dispatch block of \<open>handleAudioMessage\<close> (websocket.go 390-394).\<close>

definition resetVAD :: "ConnectionState \<Rightarrow> ConnectionState" where
  "resetVAD cs =
     cs\<lparr>ASRAudio := [], ClientAudioBuffer := [], ClientHaveVoice := False,
        ClientHaveVoiceLastTime := 0, ClientVoiceStop := False\<rparr>"

text \<open>
  The dispatch block of \<open>handleAudioMessage\<close> (websocket.go 366-396), entered when
  \<open>ClientVoiceStop\<close> holds after the frame has joined the utterance queue. A failed
  \<open>ProcessASR\<close> returns from the handler at once (line 381). The third component lists the
  requests made to the recognition service.
\<close>

definition dispatch ::
    "audio_env \<Rightarrow> WebSocketConnection \<Rightarrow> error option \<times> WebSocketConnection \<times> bytes list list" where
  "dispatch env wsc =
     (let cs = (connectionState wsc)\<lparr>ClientAbort := False, ASRServerReceive := False\<rparr> in
      if length (ASRAudio cs) < 3
      then (None, wsc\<lparr>connectionState := resetVAD (cs\<lparr>ASRServerReceive := True\<rparr>)\<rparr>, [])
      else (case ProcessASR (asr_http env) cs of
              (Inl err, cs', calls) \<Rightarrow> (Some err, wsc\<lparr>connectionState := cs'\<rparr>, calls)
            | (Inr text, cs', calls) \<Rightarrow>
                (let wsc1 = send2LLM (llm_sched env) (wsc\<lparr>connectionState := cs'\<rparr>) text in
                 (None,
                  wsc1\<lparr>connectionState :=
                         resetVAD ((connectionState wsc1)\<lparr>ASRServerReceive := True\<rparr>)\<rparr>,
                  calls))))"

text \<open>The block for a frame without voice in a segment without voice (websocket.go 345-361).\<close>

definition noVoice :: "audio_env \<Rightarrow> Config \<Rightarrow> ConnectionState \<Rightarrow> ConnectionState" where
  "noVoice env cfg cs =
     (let cs1 =
        (if ClientNoVoiceLastTime cs = 0
         then cs\<lparr>ClientNoVoiceLastTime := now_unix env * 1000\<rparr>
         else (let NoVoiceDuration = now_unix env * 1000 - ClientNoVoiceLastTime cs in
               if real_of_int NoVoiceDuration \<ge> 1000 * CloseConnectionTimeout (WebSocket cfg)
               then cs\<lparr>ClientAbort := False, ASRServerReceive := False\<rparr>
               else cs))
      in cs1\<lparr>ASRAudio := []\<rparr>)"

text \<open>
  Voice detection for one frame (websocket.go 337-342): the segmenter in automatic mode, the
  flag set by the device's \<open>listen\<close> commands otherwise.
\<close>

definition detectVoice :: "audio_env \<Rightarrow> ConnectionState \<Rightarrow> bytes \<Rightarrow> bool \<times> ConnectionState" where
  "detectVoice env cs data =
     (if ClientListenMode cs = ''auto'' then IsVAD env cs data else (ClientHaveVoice cs, cs))"

definition handleAudioMessage ::
    "audio_env \<Rightarrow> WebSocketConnection \<Rightarrow> bytes
       \<Rightarrow> error option \<times> WebSocketConnection \<times> bytes list list" where
  "handleAudioMessage env wsc data =
     (if \<not> ASRServerReceive (connectionState wsc) then (None, wsc, [])
      else
        (case detectVoice env (connectionState wsc) data of
           (HavaVoice, cs1) \<Rightarrow>
             if \<not> HavaVoice \<and> \<not> ClientHaveVoice cs1
             then (None, wsc\<lparr>connectionState := noVoice env (config wsc) cs1\<rparr>, [])
             else
               (let cs2 = cs1\<lparr>ClientNoVoiceLastTime := 0, ASRAudio := ASRAudio cs1 @ [data]\<rparr>;
                    wsc2 = wsc\<lparr>connectionState := cs2\<rparr>
                in if ClientVoiceStop cs2 then dispatch env wsc2 else (None, wsc2, []))))"

text \<open>
  What one call of \<open>handleTextMessage\<close> finds outside the process: what \<open>json.Unmarshal\<close>
  makes of the frame (\<open>None\<close>: it fails), and how the \<open>select\<close> of its \<open>sendResponse\<close>
  is resolved.
\<close>

record text_env =
  unmarshal :: "bytes \<Rightarrow> ConnectionCommand option"
  text_sched :: sched

definition handleTextMessage ::
    "text_env \<Rightarrow> WebSocketConnection \<Rightarrow> bytes \<Rightarrow> error option \<times> WebSocketConnection" where
  "handleTextMessage env wsc data =
     (case unmarshal env data of
        None \<Rightarrow> (Some ErrJSONUnmarshal, wsc)
      | Some msg_json \<Rightarrow>
          (let cs = connectionState wsc in
           if cmd_Type msg_json = ''hello'' then
             (None, sendResponse (text_sched env) wsc TextMessage
                (JSONData (zeroCommand\<lparr>cmd_Type := ''hello'', cmd_Transport := ''websocket'',
                   cmd_AudioParams := (cmd_AudioParams zeroCommand)
                     \<lparr>cmd_SampleRate := ws_SampleRate (WebSocket (config wsc))\<rparr>\<rparr>)))
           else if cmd_Type msg_json = ''iot'' then
             (None, wsc\<lparr>connectionState :=
                cs\<lparr>States := cmd_States msg_json, Description := cmd_Description msg_json\<rparr>\<rparr>)
           else if cmd_Type msg_json = ''abort'' then
             (let wsc1 = wsc\<lparr>connectionState := cs\<lparr>ClientAbort := True\<rparr>\<rparr> in
              (None, sendResponse (text_sched env) wsc1 TextMessage
                 (JSONData (zeroCommand\<lparr>cmd_Type := ''tts'', cmd_State := ''stop'',
                    cmd_Session := SessionId (connectionState wsc1)\<rparr>))))
           else if cmd_Type msg_json = ''listen'' then
             (let cs1 = (if cmd_Mode msg_json \<noteq> [] then cs\<lparr>ClientListenMode := cmd_Mode msg_json\<rparr>
                         else cs);
                  cs2 = (if cmd_State msg_json = ''start''
                           then cs1\<lparr>ClientHaveVoice := True, ClientVoiceStop := False\<rparr>
                         else if cmd_State msg_json = ''stop''
                           then cs1\<lparr>ClientHaveVoice := True, ClientVoiceStop := True\<rparr>
                         else if cmd_State msg_json = ''detect''
                           then cs1\<lparr>ClientHaveVoice := False, ASRAudio := []\<rparr>
                         else cs1)
              in (None, wsc\<lparr>connectionState := cs2\<rparr>))
           else (Some (ErrUnknownType (cmd_Type msg_json)), wsc)))"

section \<open>Activity of the other goroutines\<close>

text \<open>
  The read loop (\<open>HandleConnection\<close>), the writer (\<open>handleResponses\<close>), the generation stage
  (\<open>handleChat\<close>) and the synthesis stage (\<open>handleTTS\<close>) share the connection without a
  lock. While a stage waits (for a line of the streamed answer, for the synthesis service, in
  its sleep, at a \<open>select\<close>) the others go on. An \<open>activity\<close> is one thing another
  goroutine does to the connection meanwhile:
  \<^item> the read loop handles a control frame or an audio frame;
  \<^item> the writer takes the oldest message from \<open>responseChan\<close> and writes it to the socket;
  \<^item> the context is cancelled (after a failed write, websocket.go 294, or when the read loop
    ends, 528);
  \<^item> the generation stage pushes a fragment with its non-blocking send, or writes \<open>LLMFlag\<close>;
  \<^item> the synthesis stage takes the oldest fragment from \<open>ttsChan\<close>.
  Each is taken as one step. \<open>interfere\<close> applies the steps that fall into one wait, in the
  order in which they happen. Taking from an empty channel has no effect (the receiver is still
  waiting).
\<close>

datatype activity =
    TextFrame text_env bytes
  | AudioFrame audio_env bytes
  | MessageWritten
  | ContextCancelled
  | FragmentPushed string
  | LLMFlagWritten bool
  | FragmentTaken

fun act :: "WebSocketConnection \<Rightarrow> activity \<Rightarrow> WebSocketConnection" where
  "act wsc (TextFrame env data) = snd (handleTextMessage env wsc data)"
| "act wsc (AudioFrame env data) = fst (snd (handleAudioMessage env wsc data))"
| "act wsc MessageWritten = wsc\<lparr>responseChan := tl (responseChan wsc)\<rparr>"
| "act wsc ContextCancelled = wsc\<lparr>ctx_done := True\<rparr>"
| "act wsc (FragmentPushed chunk) =
     (if length (ttsChan wsc) < chanCapacity then wsc\<lparr>ttsChan := ttsChan wsc @ [chunk]\<rparr>
      else wsc)"
| "act wsc (LLMFlagWritten b) = wsc\<lparr>connectionState := (connectionState wsc)\<lparr>LLMFlag := b\<rparr>\<rparr>"
| "act wsc FragmentTaken = wsc\<lparr>ttsChan := tl (ttsChan wsc)\<rparr>"

definition interfere :: "WebSocketConnection \<Rightarrow> activity list \<Rightarrow> WebSocketConnection" where
  "interfere wsc steps = foldl act wsc steps"

section \<open>Dialogue pipeline: generation stage (package llm)\<close>

record LLMResponse =
  llm_Status :: string
  Chunk :: string
  Message :: string

record LLMRequest =
  lreq_Dialogue :: "Dialogue list"
  lreq_SessionId :: string
  lreq_system_prompt :: "string option"

text \<open>
  What \<open>reader.ReadString\<close> yields for one newline-terminated line of the streamed answer: a
  read error, a line that is blank once trimmed, a line that is not the JSON of an
  \<open>LLMResponse\<close>, or such a response. The end of the list is the end of the stream
  (\<open>io.EOF\<close>, which also discards an unterminated last line).
\<close>

datatype llm_line = ReadFailed | BlankLine | BadJSON | Parsed LLMResponse

datatype llm_exchange = LLMRequestFailed | LLMAnswered int "llm_line list"

text \<open>The warnings \<open>ProcessLLM\<close> logs with \<open>log.Warnf\<close>.\<close>

datatype warning = WarnChannelSend | WarnLLMService string | WarnUnknownStatus string

text \<open>
  The loop of \<open>ProcessLLM\<close> (vad.go 384-446) over the lines still to come. The state of the
  loop is the connection (its state, dialogue history and fragment channel are what the
  pointer arguments of the only call site refer to), the text gathered so far and the
  warnings logged so far. The non-blocking \<open>select\<close> sends the fragment when the channel has
  room and takes the \<open>default\<close> branch otherwise.

  \<open>llm_loop\<close> is the loop while the other goroutines are idle; \<open>llm_loop_among\<close>, which
  \<open>ProcessLLM\<close> runs, is the loop among the others and agrees with it when they do nothing
  (\<open>llm_loop_among_alone\<close> below).
\<close>

fun llm_loop ::
    "WebSocketConnection \<Rightarrow> string \<Rightarrow> warning list \<Rightarrow> llm_line list
       \<Rightarrow> error option \<times> WebSocketConnection \<times> string \<times> warning list" where
  "llm_loop wsc fullResponse warns [] =
     (if ClientAbort (connectionState wsc) then (None, wsc, fullResponse, warns)
      else (None, wsc\<lparr>connectionState := (connectionState wsc)\<lparr>LLMFlag := True\<rparr>\<rparr>,
            fullResponse, warns))"
| "llm_loop wsc fullResponse warns (line # rest) =
     (if ClientAbort (connectionState wsc) then (None, wsc, fullResponse, warns)
      else (case line of
              ReadFailed \<Rightarrow> (Some ErrLLMRead, wsc, fullResponse, warns)
            | BlankLine \<Rightarrow> llm_loop wsc fullResponse warns rest
            | BadJSON \<Rightarrow> llm_loop wsc fullResponse warns rest
            | Parsed llmResponse \<Rightarrow>
                if llm_Status llmResponse = ''streaming'' then
                  (if Chunk llmResponse \<noteq> [] then
                     (if length (ttsChan wsc) < chanCapacity
                      then llm_loop (wsc\<lparr>ttsChan := ttsChan wsc @ [Chunk llmResponse]\<rparr>)
                             (fullResponse @ Chunk llmResponse) warns rest
                      else llm_loop wsc (fullResponse @ Chunk llmResponse)
                             (warns @ [WarnChannelSend]) rest)
                   else llm_loop wsc fullResponse warns rest)
                else if llm_Status llmResponse = ''warning'' then
                  llm_loop wsc fullResponse (warns @ [WarnLLMService (Message llmResponse)]) rest
                else if llm_Status llmResponse = ''complete'' then
                  (None,
                   wsc\<lparr>dialogueStore := dialogueStore wsc
                          @ [\<lparr> Role = ''assistant'', Content = Message llmResponse \<rparr>]\<rparr>,
                   fullResponse, warns)
                else llm_loop wsc fullResponse
                       (warns @ [WarnUnknownStatus (llm_Status llmResponse)]) rest))"

text \<open>
  The same loop among the other goroutines. The abort flag is read at the top of each
  iteration (386) and nowhere else; then \<open>reader.ReadString\<close> blocks until the service has
  streamed the next line (392), and the rest of the iteration handles that line. \<open>others k\<close>
  is what the other goroutines do while the \<open>k\<close>-th read of the call blocks: it takes effect
  after the check of that iteration and before the line is handled. At the end of the stream
  the read returns \<open>io.EOF\<close>.
\<close>

fun llm_loop_among ::
    "(nat \<Rightarrow> activity list) \<Rightarrow> nat \<Rightarrow> WebSocketConnection \<Rightarrow> string \<Rightarrow> warning list
       \<Rightarrow> llm_line list \<Rightarrow> error option \<times> WebSocketConnection \<times> string \<times> warning list" where
  "llm_loop_among others k wsc fullResponse warns [] =
     (if ClientAbort (connectionState wsc) then (None, wsc, fullResponse, warns)
      else (None,
            (interfere wsc (others k))
              \<lparr>connectionState := (connectionState (interfere wsc (others k)))\<lparr>LLMFlag := True\<rparr>\<rparr>,
            fullResponse, warns))"
| "llm_loop_among others k wsc fullResponse warns (line # rest) =
     (if ClientAbort (connectionState wsc) then (None, wsc, fullResponse, warns)
      else (case line of
              ReadFailed \<Rightarrow> (Some ErrLLMRead, interfere wsc (others k), fullResponse, warns)
            | BlankLine \<Rightarrow>
                llm_loop_among others (Suc k) (interfere wsc (others k)) fullResponse warns rest
            | BadJSON \<Rightarrow>
                llm_loop_among others (Suc k) (interfere wsc (others k)) fullResponse warns rest
            | Parsed llmResponse \<Rightarrow>
                if llm_Status llmResponse = ''streaming'' then
                  (if Chunk llmResponse \<noteq> [] then
                     (if length (ttsChan (interfere wsc (others k))) < chanCapacity
                      then llm_loop_among others (Suc k)
                             ((interfere wsc (others k))
                                \<lparr>ttsChan := ttsChan (interfere wsc (others k)) @ [Chunk llmResponse]\<rparr>)
                             (fullResponse @ Chunk llmResponse) warns rest
                      else llm_loop_among others (Suc k) (interfere wsc (others k))
                             (fullResponse @ Chunk llmResponse) (warns @ [WarnChannelSend]) rest)
                   else llm_loop_among others (Suc k) (interfere wsc (others k))
                          fullResponse warns rest)
                else if llm_Status llmResponse = ''warning'' then
                  llm_loop_among others (Suc k) (interfere wsc (others k)) fullResponse
                    (warns @ [WarnLLMService (Message llmResponse)]) rest
                else if llm_Status llmResponse = ''complete'' then
                  (None,
                   (interfere wsc (others k))
                     \<lparr>dialogueStore := dialogueStore (interfere wsc (others k))
                          @ [\<lparr> Role = ''assistant'', Content = Message llmResponse \<rparr>]\<rparr>,
                   fullResponse, warns)
                else llm_loop_among others (Suc k) (interfere wsc (others k)) fullResponse
                       (warns @ [WarnUnknownStatus (llm_Status llmResponse)]) rest))"

text \<open>
  What one round of \<open>handleChat\<close> finds outside its goroutine: the generation service, how the
  \<open>select\<close> of \<open>startSpeak\<close> is resolved, and what the other goroutines do while the
  request is under way (\<open>client.Do\<close> returns once the response headers have arrived) and
  while each line is awaited.
\<close>

record llm_env =
  llm_http :: "LLMRequest \<Rightarrow> llm_exchange"
  speak_sched :: sched
  llm_requesting :: "activity list"
  llm_reading :: "nat \<Rightarrow> activity list"

text \<open>
  \<open>ProcessLLM\<close> as \<open>handleChat\<close> calls it: the request carries the dialogue history as it
  is at the call; \<open>llmFlag\<close> points at the \<open>LLMFlag\<close> of the connection state, so the
  deferred \<open>*llmFlag = false\<close> is the last write to it.
\<close>

definition ProcessLLM ::
    "llm_env \<Rightarrow> WebSocketConnection \<Rightarrow> error option \<times> WebSocketConnection \<times> warning list" where
  "ProcessLLM env wsc =
     (let requestBody =
            \<lparr> lreq_Dialogue = dialogueStore wsc,
              lreq_SessionId = SessionId (connectionState wsc),
              lreq_system_prompt =
                (if SystemPrompt (LLM (config wsc)) \<noteq> []
                 then Some (SystemPrompt (LLM (config wsc))) else None) \<rparr>;
          wsc1 = interfere wsc (llm_requesting env)
      in case llm_http env requestBody of
           LLMRequestFailed \<Rightarrow> (Some ErrLLMSend, wsc1, [])
         | LLMAnswered code lines \<Rightarrow>
             if code \<noteq> 200 then (Some (ErrLLMStatusCode code), wsc1, [])
             else (case llm_loop_among (llm_reading env) 0
                          (wsc1\<lparr>connectionState := (connectionState wsc1)\<lparr>LLMFlag := True\<rparr>\<rparr>)
                          [] [] lines of
                     (err, wsc', fullResponse, warns) \<Rightarrow>
                       (err, wsc'\<lparr>connectionState := (connectionState wsc')\<lparr>LLMFlag := False\<rparr>\<rparr>,
                        warns)))"

definition startSpeak :: "sched \<Rightarrow> WebSocketConnection \<Rightarrow> WebSocketConnection" where
  "startSpeak s wsc =
     sendResponse s wsc TextMessage
       (JSONData (zeroCommand\<lparr>cmd_Type := ''tts'', cmd_State := ''start''\<rparr>))"

text \<open>One round of \<open>handleChat\<close> for a text received from \<open>llmChan\<close>.\<close>

definition handleChat_recv ::
    "llm_env \<Rightarrow> WebSocketConnection \<Rightarrow> string
       \<Rightarrow> error option \<times> WebSocketConnection \<times> warning list" where
  "handleChat_recv env wsc text =
     ProcessLLM env
       (startSpeak (speak_sched env)
          (wsc\<lparr>dialogueStore := dialogueStore wsc @ [\<lparr> Role = ''user'', Content = text \<rparr>]\<rparr>))"

section \<open>Dialogue pipeline: synthesis stage\<close>

text \<open>
  What one round of \<open>handleTTS\<close> finds outside its goroutine: the clock when the fragment
  is received, the synthesis service behind \<open>tts.ProcessTTS\<close> (text and session id to frames
  and a duration in seconds, or an error), the clock when the pacing delay is computed, and
  \<^item> \<open>tts_waiting\<close>: what the other goroutines do while the stage waits at its \<open>select\<close>,
    before this round;
  \<^item> \<open>tts_during\<close>: what they do after the abort check of the round (197), which is the only
    one: \<open>tts_during 0\<close> while the synthesis call is under way, \<open>tts_during (i + 1)\<close>
    after the \<open>i\<close>-th frame has been sent;
  \<^item> \<open>tts_sleeping\<close>: what they do during the sleep of \<open>endSpeak\<close>;
  \<^item> \<open>tts_sched\<close>: how the \<open>select\<close> of the \<open>i\<close>-th \<open>sendResponse\<close> of the round is
    resolved;
  \<^item> \<open>tts_pick_done\<close>: whether the \<open>select\<close> of \<open>handleTTS\<close> picks the cancellation when
    the context is cancelled and a fragment is waiting as well.
\<close>

record tts_env =
  tts_now_start :: int
  tts_ProcessTTS :: "string \<Rightarrow> string \<Rightarrow> error + (bytes list \<times> real)"
  tts_now_end :: int
  tts_waiting :: "activity list"
  tts_during :: "nat \<Rightarrow> activity list"
  tts_sleeping :: "activity list"
  tts_sched :: "nat \<Rightarrow> sched"
  tts_pick_done :: bool

definition TTS ::
    "tts_env \<Rightarrow> WebSocketConnection \<Rightarrow> string \<Rightarrow> (error + bytes list) \<times> WebSocketConnection" where
  "TTS env wsc text =
     (case tts_ProcessTTS env text (SessionId (connectionState wsc)) of
        Inl err \<Rightarrow> (Inl err, interfere wsc (tts_during env 0))
      | Inr (audioFrames, duration) \<Rightarrow>
          (let wsc1 = interfere wsc (tts_during env 0) in
           (Inr audioFrames,
            wsc1\<lparr>connectionState := (connectionState wsc1)
                    \<lparr>TTSDuration := TTSDuration (connectionState wsc1) + duration * 1000\<rparr>\<rparr>)))"

text \<open>
  \<open>endSpeak\<close> sleeps for the pacing delay and sends the stop frame, the \<open>i\<close>-th send of
  its round.
\<close>

definition endSpeak :: "tts_env \<Rightarrow> nat \<Rightarrow> WebSocketConnection \<Rightarrow> real \<Rightarrow> WebSocketConnection" where
  "endSpeak env i wsc sleepuTime =
     sendResponse (tts_sched env i) (interfere wsc (tts_sleeping env)) TextMessage
       (JSONData (zeroCommand\<lparr>cmd_Type := ''tts'', cmd_State := ''stop''\<rparr>))"

text \<open>The loop that sends the frames of a fragment (210-220), from the \<open>i\<close>-th send on.\<close>

fun sendFrames :: "tts_env \<Rightarrow> nat \<Rightarrow> WebSocketConnection \<Rightarrow> bytes list \<Rightarrow> WebSocketConnection" where
  "sendFrames env i wsc [] = wsc"
| "sendFrames env i wsc (frame # frames) =
     sendFrames env (Suc i)
       (interfere (sendResponse (tts_sched env i) wsc BinaryMessage (BinaryData frame))
          (tts_during env (Suc i)))
       frames"

text \<open>The body of the loop of \<open>handleTTS\<close> for a fragment taken from \<open>ttsChan\<close> (189-231).\<close>

definition handleTTS_recv :: "tts_env \<Rightarrow> WebSocketConnection \<Rightarrow> string \<Rightarrow> WebSocketConnection" where
  "handleTTS_recv env wsc text =
     (let cs = connectionState wsc;
          wsc1 = (if StartSpeakTime cs = 0
                  then wsc\<lparr>connectionState := cs\<lparr>StartSpeakTime := tts_now_start env\<rparr>\<rparr>
                  else wsc)
      in if ClientAbort (connectionState wsc1) then wsc1
         else (case TTS env wsc1 text of
                 (Inl err, wsc2) \<Rightarrow> wsc2
               | (Inr audioFrames, wsc2) \<Rightarrow>
                   (let wsc3 = sendFrames env 0 wsc2 audioFrames
                    in if \<not> LLMFlag (connectionState wsc3) \<and> length (ttsChan wsc3) = 0
                       then (let wsc4 = endSpeak env (length audioFrames) wsc3
                                   (TTSDuration (connectionState wsc3)
                                      - real_of_int (tts_now_end env
                                          - StartSpeakTime (connectionState wsc3)))
                             in wsc4\<lparr>connectionState := (connectionState wsc4)
                                     \<lparr>TTSDuration := 0, StartSpeakTime := 0\<rparr>\<rparr>)
                       else wsc3)))"

text \<open>
  One round of the \<open>select\<close> of \<open>handleTTS\<close>, after what the others did while the
  goroutine was waiting there: it leaves on a cancelled context (when a fragment is waiting as
  well, if Go picks that case), keeps waiting on an empty channel, and otherwise takes the
  oldest fragment.
\<close>

datatype 'a round = Exited 'a | Waiting 'a | Stepped 'a

definition handleTTS_round :: "tts_env \<Rightarrow> WebSocketConnection \<Rightarrow> WebSocketConnection round" where
  "handleTTS_round env wsc =
     (let wsc0 = interfere wsc (tts_waiting env) in
      if ctx_done wsc0 \<and> (ttsChan wsc0 = [] \<or> tts_pick_done env) then Exited wsc0
      else (case ttsChan wsc0 of
              [] \<Rightarrow> Waiting wsc0
            | text # rest \<Rightarrow> Stepped (handleTTS_recv env (wsc0\<lparr>ttsChan := rest\<rparr>) text)))"

text \<open>
  \<open>handleTTS\<close> run for as many rounds as the list gives surroundings for, stopping early
  when the goroutine leaves or has to wait.
\<close>

fun handleTTS :: "tts_env list \<Rightarrow> WebSocketConnection \<Rightarrow> WebSocketConnection" where
  "handleTTS [] wsc = wsc"
| "handleTTS (env # envs) wsc =
     (case handleTTS_round env wsc of
        Stepped wsc' \<Rightarrow> handleTTS envs wsc'
      | Exited wsc' \<Rightarrow> wsc'
      | Waiting wsc' \<Rightarrow> wsc')"

section \<open>Observations on runs\<close>

text \<open>
  A run of the audio path: the frames arrive one after the other, each with the surroundings
  its call of \<open>handleAudioMessage\<close> finds. \<open>feed\<close> is the connection after the run.
\<close>

fun feed :: "WebSocketConnection \<Rightarrow> (audio_env \<times> bytes) list \<Rightarrow> WebSocketConnection" where
  "feed wsc [] = wsc"
| "feed wsc ((env, data) # frames) = feed (fst (snd (handleAudioMessage env wsc data))) frames"

text \<open>
  The segmenter sets voice-stop while it handles a frame when the frame reaches it (audio is
  accepted, the mode is automatic), the flag is clear before and set after \<open>IsVAD\<close>. Within
  one \<open>IsVAD\<close> the flag is never cleared, so this is the flag's one change from false to true.
  \<open>voice_stop_count\<close> counts the frames of a run at which that happens.
\<close>

definition sets_voice_stop :: "audio_env \<Rightarrow> WebSocketConnection \<Rightarrow> bytes \<Rightarrow> bool" where
  "sets_voice_stop env wsc data \<longleftrightarrow>
     ASRServerReceive (connectionState wsc) \<and>
     ClientListenMode (connectionState wsc) = ''auto'' \<and>
     \<not> ClientVoiceStop (connectionState wsc) \<and>
     ClientVoiceStop (snd (IsVAD env (connectionState wsc) data))"

fun voice_stop_count :: "WebSocketConnection \<Rightarrow> (audio_env \<times> bytes) list \<Rightarrow> nat" where
  "voice_stop_count wsc [] = 0"
| "voice_stop_count wsc ((env, data) # frames) =
     (if sets_voice_stop env wsc data then 1 else 0)
       + voice_stop_count (fst (snd (handleAudioMessage env wsc data))) frames"

text \<open>
  Surroundings in which no analysis window is classified as voiced: every request to the
  voice-activity service fails or answers "no voice".
\<close>

definition silent :: "audio_env \<Rightarrow> bool" where
  "silent env \<longleftrightarrow> (\<forall>k chunk. callVADService getVADProcessor (vad_http env k) chunk \<noteq> Inr True)"

text \<open>A connection state with the four fields that \<open>processVAD\<close> writes blanked out.\<close>

definition vad_erase :: "ConnectionState \<Rightarrow> ConnectionState" where
  "vad_erase conn =
     conn\<lparr>ClientAudioBuffer := [], ClientHaveVoice := False,
          ClientHaveVoiceLastTime := 0, ClientVoiceStop := False\<rparr>"

text \<open>
  Two kinds of states of the audio path. In a voiced run the segmenter has heard voice, last
  at time \<open>L\<close>, and has not yet marked the utterance as ended. With no voice pending, either
  audio is not accepted or the automatic segmenter has heard nothing since the last reset.
\<close>

definition in_voiced_run :: "int \<Rightarrow> WebSocketConnection \<Rightarrow> bool" where
  "in_voiced_run L wsc \<longleftrightarrow>
     ASRServerReceive (connectionState wsc) \<and> ClientListenMode (connectionState wsc) = ''auto'' \<and>
     ClientHaveVoice (connectionState wsc) \<and> \<not> ClientVoiceStop (connectionState wsc) \<and>
     ClientHaveVoiceLastTime (connectionState wsc) = L"

definition no_voice_pending :: "WebSocketConnection \<Rightarrow> bool" where
  "no_voice_pending wsc \<longleftrightarrow>
     \<not> ASRServerReceive (connectionState wsc) \<or>
     (ClientListenMode (connectionState wsc) = ''auto'' \<and>
      \<not> ClientHaveVoice (connectionState wsc) \<and> \<not> ClientVoiceStop (connectionState wsc))"

section \<open>Concrete inputs\<close>

definition idle_conn :: ConnectionState where
  "idle_conn =
     \<lparr> UserId = [], SessionId = ''s1'', RoleId = [], DeviceId = ''dev'', ClientIP = [],
       ClientAbort = False, ClientListenMode = ''auto'', ClientAudioBuffer = [],
       ClientHaveVoice = False, ClientHaveVoiceLastTime = 0, ClientNoVoiceLastTime = 0,
       ClientVoiceStop = False, ASRAudio = [], ASRServerReceive = True, LLMFlag = False,
       IoTReceived = False, IoTHandled = False, Description = [], States = [],
       StartSpeakTime = 0, TTSDuration = 0 \<rparr>"

definition asr_ok :: "string \<Rightarrow> ASRRequest \<Rightarrow> asr_exchange" where
  "asr_ok t r = ASRAnswered 200 (Some \<lparr> asr_Status = ''success'', asr_Text = t \<rparr>)"

definition base_wsc :: WebSocketConnection where
  "base_wsc =
     \<lparr> config = \<lparr> WebSocket = \<lparr> ws_SampleRate = 16000, CloseConnectionTimeout = 120 \<rparr>,
                  LLM = \<lparr> llm_URL = ''http://localhost:8001'', llm_Timeout = 10,
                          SystemPrompt = [] \<rparr> \<rparr>,
       responseChan = [], llmChan = [], ttsChan = [], dialogueStore = [], ctx_done = False,
       connectionState = idle_conn \<rparr>"

text \<open>A \<open>select\<close> that picks the send and is resumed by the receiver.\<close>

definition prompt :: sched where
  "prompt = \<lparr> pick_send = True, resumed = ByReceiver \<rparr>"

text \<open>
  Surroundings in which the decoder rejects every frame, the voice-activity service answers
  "no voice", and recognition succeeds.
\<close>

definition quiet_env :: audio_env where
  "quiet_env =
     \<lparr> decodeOpus = (\<lambda>d. None),
       vad_http = (\<lambda>k r. VADAnswered (Some \<lparr> vad_Status = ''success'', vad_Result = False \<rparr>)),
       now_milli = (\<lambda>k. 1000), now_unix = 1,
       asr_http = asr_ok ''hello'', llm_sched = prompt \<rparr>"

definition early_env :: audio_env where
  "early_env = quiet_env\<lparr>now_milli := (\<lambda>k. 1200)\<rparr>"

definition late_env :: audio_env where
  "late_env = quiet_env\<lparr>now_milli := (\<lambda>k. 1600)\<rparr>"

text \<open>Automatic mode in a voiced run (last voice at 1000 ms), two frames queued.\<close>

definition voiced_wsc :: WebSocketConnection where
  "voiced_wsc =
     base_wsc\<lparr>connectionState :=
       idle_conn\<lparr>ClientHaveVoice := True, ClientHaveVoiceLastTime := 1000,
                 ASRAudio := [[1], [2]]\<rparr>\<rparr>"

text \<open>The late surroundings with a recognition service that answers HTTP 500.\<close>

definition late_failing_env :: audio_env where
  "late_failing_env = late_env\<lparr>asr_http := (\<lambda>r. ASRAnswered 500 None)\<rparr>"

text \<open>
  The first voice-activity request of a call cannot be sent; the later ones answer "voice".
\<close>

definition flaky_env :: audio_env where
  "flaky_env =
     quiet_env\<lparr>vad_http := (\<lambda>k r. if k = 0 then VADSendFailed
        else VADAnswered (Some \<lparr> vad_Status = ''success'', vad_Result = True \<rparr>))\<rparr>"

text \<open>No voice-activity request can be sent.\<close>

definition deaf_env :: audio_env where
  "deaf_env = quiet_env\<lparr>vad_http := (\<lambda>k r. VADSendFailed)\<rparr>"

text \<open>Automatic mode in a voiced run with a single frame queued.\<close>

definition brief_wsc :: WebSocketConnection where
  "brief_wsc =
     base_wsc\<lparr>connectionState :=
       idle_conn\<lparr>ClientHaveVoice := True, ClientHaveVoiceLastTime := 1000, ASRAudio := [[1]]\<rparr>\<rparr>"

text \<open>Audio is not accepted; a frame is queued, a voiced run is under way.\<close>

definition closed_wsc :: WebSocketConnection where
  "closed_wsc =
     base_wsc\<lparr>dialogueStore := [\<lparr> Role = ''user'', Content = ''hi'' \<rparr>],
       connectionState :=
         idle_conn\<lparr>ASRServerReceive := False, ClientHaveVoice := True,
                   ClientAudioBuffer := [7], ASRAudio := [[1]]\<rparr>\<rparr>"

text \<open>Manual mode after "listen stop", two frames queued.\<close>

definition stop_wsc :: WebSocketConnection where
  "stop_wsc =
     base_wsc\<lparr>connectionState :=
       idle_conn\<lparr>ClientListenMode := ''manual'', ClientHaveVoice := True,
                 ClientVoiceStop := True, ASRAudio := [[1], [2]]\<rparr>\<rparr>"

text \<open>The recognition service answers HTTP 500.\<close>

definition failing_env :: audio_env where
  "failing_env = quiet_env\<lparr>asr_http := (\<lambda>r. ASRAnswered 500 None)\<rparr>"

text \<open>What \<open>stop_wsc\<close> becomes when a third frame arrives and recognition fails.\<close>

definition stuck_wsc :: WebSocketConnection where
  "stuck_wsc =
     base_wsc\<lparr>connectionState :=
       idle_conn\<lparr>ClientListenMode := ''manual'', ClientHaveVoice := True,
                 ClientVoiceStop := True, ASRAudio := [[1], [2], [3]],
                 ASRServerReceive := False\<rparr>\<rparr>"

text \<open>The same with two chunks of one MiB each queued.\<close>

definition big_wsc :: WebSocketConnection where
  "big_wsc =
     base_wsc\<lparr>connectionState :=
       idle_conn\<lparr>ClientListenMode := ''manual'', ClientHaveVoice := True,
                 ClientVoiceStop := True,
                 ASRAudio := [replicate 1048576 0, replicate 1048576 0]\<rparr>\<rparr>"

text \<open>What \<open>big_wsc\<close> becomes when a one-byte frame arrives.\<close>

definition big_stuck_wsc :: WebSocketConnection where
  "big_stuck_wsc =
     base_wsc\<lparr>connectionState :=
       idle_conn\<lparr>ClientListenMode := ''manual'', ClientHaveVoice := True,
                 ClientVoiceStop := True,
                 ASRAudio := [replicate 1048576 0, replicate 1048576 0, [0]],
                 ASRServerReceive := False\<rparr>\<rparr>"

text \<open>
  What \<open>voiced_wsc\<close> becomes when a frame of 1024 bytes completes a silent window 600 ms
  after the last voice and recognition fails.
\<close>

definition halted_wsc :: WebSocketConnection where
  "halted_wsc =
     base_wsc\<lparr>connectionState :=
       idle_conn\<lparr>ClientHaveVoice := True, ClientHaveVoiceLastTime := 1000,
                 ClientVoiceStop := True, ASRAudio := [[1], [2], replicate 1024 0],
                 ASRServerReceive := False\<rparr>\<rparr>"

text \<open>What it becomes when recognition succeeds.\<close>

definition served_wsc :: WebSocketConnection where
  "served_wsc = base_wsc\<lparr>llmChan := [''hello'']\<rparr>"

text \<open>The control frame "listen detect" of the device.\<close>

definition listen_detect :: ConnectionCommand where
  "listen_detect = zeroCommand\<lparr>cmd_Type := ''listen'', cmd_State := ''detect''\<rparr>"

definition detect_env :: text_env where
  "detect_env = \<lparr> unmarshal = (\<lambda>d. Some listen_detect), text_sched = prompt \<rparr>"

text \<open>The abort command of the device.\<close>

definition abort_cmd :: ConnectionCommand where
  "abort_cmd = zeroCommand\<lparr>cmd_Type := ''abort''\<rparr>"

definition abort_env :: text_env where
  "abort_env = \<lparr> unmarshal = (\<lambda>d. Some abort_cmd), text_sched = prompt \<rparr>"

text \<open>Mid-reply: generation in flight, two fragments waiting for synthesis.\<close>

definition speaking_wsc :: WebSocketConnection where
  "speaking_wsc =
     base_wsc\<lparr>ttsChan := [''Hello'', ''there''],
              dialogueStore := [\<lparr> Role = ''user'', Content = ''hi'' \<rparr>],
              connectionState := idle_conn\<lparr>LLMFlag := True\<rparr>\<rparr>"

text \<open>The same after the abort command: the flag is set, the stop frame is queued.\<close>

definition aborted_wsc :: WebSocketConnection where
  "aborted_wsc =
     speaking_wsc\<lparr>connectionState := idle_conn\<lparr>LLMFlag := True, ClientAbort := True\<rparr>,
       responseChan :=
         [\<lparr> MessageType = 1,
            Data = JSONData (zeroCommand\<lparr>cmd_Type := ''tts'', cmd_State := ''stop'',
                                         cmd_Session := ''s1''\<rparr>) \<rparr>]\<rparr>"

text \<open>
  The abort command arrives during the first wait of a stage (the read of the first line, the
  synthesis call) and nothing else happens.
\<close>

definition abort_arrives :: "nat \<Rightarrow> activity list" where
  "abort_arrives k = (if k = 0 then [TextFrame abort_env []] else [])"

text \<open>Nothing happens during the waits of a stage.\<close>

definition idle :: "nat \<Rightarrow> activity list" where
  "idle k = []"

text \<open>Lines of a streamed answer.\<close>

definition complete_line :: llm_line where
  "complete_line = Parsed \<lparr> llm_Status = ''complete'', Chunk = [], Message = ''Hello there'' \<rparr>"

definition streaming_resp :: LLMResponse where
  "streaming_resp = \<lparr> llm_Status = ''streaming'', Chunk = ''more'', Message = [] \<rparr>"


text \<open>A synthesis service that answers two frames lasting one second.\<close>

definition tts_ok :: tts_env where
  "tts_ok = \<lparr> tts_now_start = 5000,
              tts_ProcessTTS = (\<lambda>t s. Inr ([[1, 2], [3]], 1)),
              tts_now_end = 5100,
              tts_waiting = [], tts_during = idle, tts_sleeping = [],
              tts_sched = (\<lambda>i. prompt), tts_pick_done = True \<rparr>"

text \<open>The same round with the abort command arriving during the synthesis call.\<close>

definition tts_interrupted :: tts_env where
  "tts_interrupted = tts_ok\<lparr>tts_during := abort_arrives\<rparr>"

text \<open>The synthesis stage has taken the first fragment of \<open>speaking_wsc\<close>.\<close>

definition taken_wsc :: WebSocketConnection where
  "taken_wsc = speaking_wsc\<lparr>ttsChan := [''there'']\<rparr>"

text \<open>
  A generation service that streams the complete signal, with the abort command arriving
  while the request is under way.
\<close>

definition llm_interrupted :: llm_env where
  "llm_interrupted =
     \<lparr> llm_http = (\<lambda>r. LLMAnswered 200 [complete_line]), speak_sched = prompt,
       llm_requesting = [TextFrame abort_env []], llm_reading = idle \<rparr>"

section \<open>Lemmas on the segmenter\<close>

declare vad_loop.simps [simp del]

lemma vad_loop_step:
  assumes "0 < fs" "fs \<le> length (ClientAudioBuffer conn)"
  shows "vad_loop v fs env k b conn =
     vad_loop v fs env (Suc k)
       (fst (vad_window v env k (take fs (ClientAudioBuffer conn))
               (conn\<lparr>ClientAudioBuffer := drop fs (ClientAudioBuffer conn)\<rparr>)))
       (snd (vad_window v env k (take fs (ClientAudioBuffer conn))
               (conn\<lparr>ClientAudioBuffer := drop fs (ClientAudioBuffer conn)\<rparr>)))"
  using assms by (subst vad_loop.simps) (simp add: Let_def split: prod.splits)

lemma vad_loop_stop:
  assumes "length (ClientAudioBuffer conn) < fs"
  shows "vad_loop v fs env k b conn = (b, conn)"
  using assms by (subst vad_loop.simps) simp

lemma vad_window_erase: "vad_erase (snd (vad_window v env k chunk conn)) = vad_erase conn"
  by (simp add: vad_window_def vad_erase_def Let_def)

lemma vad_window_buffer:
  "ClientAudioBuffer (snd (vad_window v env k chunk conn)) = ClientAudioBuffer conn"
  by (simp add: vad_window_def Let_def)

lemma vad_window_fst:
  "fst (vad_window v env k chunk conn) \<longleftrightarrow> callVADService v (vad_http env k) chunk = Inr True"
  by (auto simp add: vad_window_def Let_def split: sum.splits)

lemma vad_window_stop_mono:
  "ClientVoiceStop conn \<Longrightarrow> ClientVoiceStop (snd (vad_window v env k chunk conn))"
  by (simp add: vad_window_def Let_def)

lemma vad_window_voice_mono:
  "ClientHaveVoice conn \<Longrightarrow> ClientHaveVoice (snd (vad_window v env k chunk conn))"
  by (simp add: vad_window_def Let_def)

lemma vad_window_rise:
  "ClientVoiceStop (snd (vad_window v env k chunk conn)) \<Longrightarrow> \<not> ClientVoiceStop conn
     \<Longrightarrow> ClientHaveVoice conn"
  by (simp add: vad_window_def Let_def split: if_splits)

lemma vad_window_silent:
  assumes "callVADService v (vad_http env k) chunk \<noteq> Inr True"
  shows "vad_window v env k chunk conn =
     (False, conn\<lparr>ClientVoiceStop := ClientVoiceStop conn \<or>
        (ClientHaveVoice conn \<and>
           now_milli env k - ClientHaveVoiceLastTime conn \<ge> SilenceThresholdMs v)\<rparr>)"
  using assms by (auto simp add: vad_window_def Let_def split: sum.splits)

lemma vad_loop_induct [consumes 1, case_names stop step]:
  assumes pos: "0 < fs"
    and stop: "\<And>k b conn. length (ClientAudioBuffer conn) < fs \<Longrightarrow> P k b conn"
    and step: "\<And>k b conn. fs \<le> length (ClientAudioBuffer conn) \<Longrightarrow>
        P (Suc k)
          (fst (vad_window v env k (take fs (ClientAudioBuffer conn))
                  (conn\<lparr>ClientAudioBuffer := drop fs (ClientAudioBuffer conn)\<rparr>)))
          (snd (vad_window v env k (take fs (ClientAudioBuffer conn))
                  (conn\<lparr>ClientAudioBuffer := drop fs (ClientAudioBuffer conn)\<rparr>)))
        \<Longrightarrow> P k b conn"
  shows "P k b conn"
proof (induction "length (ClientAudioBuffer conn)" arbitrary: k b conn rule: less_induct)
  case less
  show ?case
  proof (cases "length (ClientAudioBuffer conn) < fs")
    case True
    then show ?thesis by (rule stop)
  next
    case False
    let ?r = "vad_window v env k (take fs (ClientAudioBuffer conn))
                (conn\<lparr>ClientAudioBuffer := drop fs (ClientAudioBuffer conn)\<rparr>)"
    have "length (ClientAudioBuffer (snd ?r)) < length (ClientAudioBuffer conn)"
      using False pos by (simp add: vad_window_buffer)
    then have "P (Suc k) (fst ?r) (snd ?r)" by (rule less)
    with False show ?thesis by (metis step not_less)
  qed
qed

lemma vad_loop_erase:
  assumes pos: "0 < fs"
  shows "vad_erase (snd (vad_loop v fs env k b conn)) = vad_erase conn"
  using pos
proof (induction k b conn rule: vad_loop_induct [where v = v and env = env])
  case (stop k b conn)
  then show ?case by (simp add: vad_loop_stop)
next
  case (step k b conn)
  let ?c = "conn\<lparr>ClientAudioBuffer := drop fs (ClientAudioBuffer conn)\<rparr>"
  let ?r = "vad_window v env k (take fs (ClientAudioBuffer conn)) ?c"
  have "vad_loop v fs env k b conn = vad_loop v fs env (Suc k) (fst ?r) (snd ?r)"
    using pos step.hyps by (rule vad_loop_step)
  then have "vad_erase (snd (vad_loop v fs env k b conn)) = vad_erase (snd ?r)"
    using step.IH by simp
  also have "\<dots> = vad_erase ?c" by (rule vad_window_erase)
  also have "\<dots> = vad_erase conn" by (simp add: vad_erase_def)
  finally show ?case .
qed

lemma vad_loop_flags:
  assumes pos: "0 < fs"
  shows "(ClientVoiceStop conn \<longrightarrow> ClientVoiceStop (snd (vad_loop v fs env k b conn))) \<and>
         (ClientHaveVoice conn \<longrightarrow> ClientHaveVoice (snd (vad_loop v fs env k b conn))) \<and>
         (ClientVoiceStop (snd (vad_loop v fs env k b conn)) \<longrightarrow>
            ClientVoiceStop conn \<or> ClientHaveVoice (snd (vad_loop v fs env k b conn)))"
  using pos
proof (induction k b conn rule: vad_loop_induct [where v = v and env = env])
  case (stop k b conn)
  then show ?case by (simp add: vad_loop_stop)
next
  case (step k b conn)
  let ?c = "conn\<lparr>ClientAudioBuffer := drop fs (ClientAudioBuffer conn)\<rparr>"
  let ?r = "vad_window v env k (take fs (ClientAudioBuffer conn)) ?c"
  let ?l = "vad_loop v fs env (Suc k) (fst ?r) (snd ?r)"
  have eq: "vad_loop v fs env k b conn = ?l"
    using pos step.hyps by (rule vad_loop_step)
  have w1: "ClientVoiceStop conn \<Longrightarrow> ClientVoiceStop (snd ?r)"
    by (rule vad_window_stop_mono) simp
  have w2: "ClientHaveVoice conn \<Longrightarrow> ClientHaveVoice (snd ?r)"
    by (rule vad_window_voice_mono) simp
  have w3: "ClientVoiceStop (snd ?r) \<Longrightarrow> \<not> ClientVoiceStop conn \<Longrightarrow> ClientHaveVoice conn"
    using vad_window_rise [of v env k "take fs (ClientAudioBuffer conn)" ?c] by simp
  from step.IH w1 w2 w3 show ?case unfolding eq by blast
qed


lemma ex_less_Suc_shift:
  "(P 0 \<or> (\<exists>j<n. P (Suc j))) \<longleftrightarrow> (\<exists>j<Suc n. P j)"
  by (metis less_Suc_eq_0_disj)

lemma vad_loop_silent:
  assumes pos: "0 < fs"
    and quiet: "\<And>k chunk. callVADService v (vad_http env k) chunk \<noteq> Inr True"
  shows "vad_loop v fs env k b conn =
     (if length (ClientAudioBuffer conn) < fs then b else False,
      conn\<lparr>ClientAudioBuffer :=
             drop (length (ClientAudioBuffer conn) div fs * fs) (ClientAudioBuffer conn),
           ClientVoiceStop := ClientVoiceStop conn \<or>
             (ClientHaveVoice conn \<and>
              (\<exists>j < length (ClientAudioBuffer conn) div fs.
                 now_milli env (k + j) - ClientHaveVoiceLastTime conn \<ge> SilenceThresholdMs v))\<rparr>)"
  using pos
proof (induction k b conn rule: vad_loop_induct [where v = v and env = env])
  case (stop k b conn)
  then show ?case by (simp add: vad_loop_stop)
next
  case (step k b conn)
  let ?buf = "ClientAudioBuffer conn"
  let ?c = "conn\<lparr>ClientAudioBuffer := drop fs ?buf\<rparr>"
  let ?hit = "\<lambda>i. now_milli env i - ClientHaveVoiceLastTime conn \<ge> SilenceThresholdMs v"
  let ?c' = "?c\<lparr>ClientVoiceStop := ClientVoiceStop conn \<or> (ClientHaveVoice conn \<and> ?hit k)\<rparr>"
  let ?n' = "length (drop fs ?buf) div fs"
  have win: "vad_window v env k (take fs ?buf) ?c = (False, ?c')"
    using vad_window_silent [OF quiet, of k "take fs ?buf" ?c] by simp
  have eq: "vad_loop v fs env k b conn = vad_loop v fs env (Suc k) False ?c'"
    using vad_loop_step [OF pos step.hyps, of v env k b] by (simp add: win)
  have n: "length ?buf div fs = Suc ?n'"
    using pos step.hyps by (simp add: le_div_geq)
  have dr: "drop (?n' * fs) (drop fs ?buf) = drop (length ?buf div fs * fs) ?buf"
    by (simp add: n add.commute)
  have ex: "(?hit k \<or> (\<exists>j < ?n'. ?hit (Suc (k + j)))) \<longleftrightarrow> (\<exists>j < length ?buf div fs. ?hit (k + j))"
    unfolding n using ex_less_Suc_shift [of "\<lambda>j. ?hit (k + j)" ?n'] by simp
  have ih: "vad_loop v fs env (Suc k) False ?c' =
     (False,
      ?c'\<lparr>ClientAudioBuffer := drop (?n' * fs) (drop fs ?buf),
           ClientVoiceStop := ClientVoiceStop ?c' \<or>
             (ClientHaveVoice conn \<and> (\<exists>j < ?n'. ?hit (Suc (k + j))))\<rparr>)"
    using step.IH by (simp add: win)
  have "ClientVoiceStop ?c' \<or> (ClientHaveVoice conn \<and> (\<exists>j < ?n'. ?hit (Suc (k + j))))
        \<longleftrightarrow> ClientVoiceStop conn \<or> (ClientHaveVoice conn \<and> (\<exists>j < length ?buf div fs. ?hit (k + j)))"
    using ex by auto
  then show ?case
    using step.hyps unfolding eq ih dr by simp
qed


lemma vad_loop_last:
  assumes pos: "0 < fs"
  shows "fs \<le> length (ClientAudioBuffer conn) \<longrightarrow>
     (fst (vad_loop v fs env k b conn) \<longleftrightarrow>
        callVADService v (vad_http env (k + length (ClientAudioBuffer conn) div fs - 1))
          (take fs (drop ((length (ClientAudioBuffer conn) div fs - 1) * fs)
                      (ClientAudioBuffer conn))) = Inr True)"
  using pos
proof (induction k b conn rule: vad_loop_induct [where v = v and env = env])
  case (stop k b conn)
  then show ?case by simp
next
  case (step k b conn)
  let ?buf = "ClientAudioBuffer conn"
  let ?c = "conn\<lparr>ClientAudioBuffer := drop fs ?buf\<rparr>"
  let ?r = "vad_window v env k (take fs ?buf) ?c"
  let ?n' = "length (drop fs ?buf) div fs"
  have eq: "vad_loop v fs env k b conn = vad_loop v fs env (Suc k) (fst ?r) (snd ?r)"
    using pos step.hyps by (rule vad_loop_step)
  have buf': "ClientAudioBuffer (snd ?r) = drop fs ?buf"
    by (simp add: vad_window_buffer)
  have n: "length ?buf div fs = Suc ?n'"
    using pos step.hyps by (simp add: le_div_geq)
  show ?case
  proof (cases "length (drop fs ?buf) < fs")
    case True
    then have "vad_loop v fs env (Suc k) (fst ?r) (snd ?r) = (fst ?r, snd ?r)"
      by (intro vad_loop_stop) (simp add: buf')
    moreover have "?n' = 0" using True by simp
    ultimately show ?thesis
      unfolding eq n by (simp add: vad_window_fst)
  next
    case False
    then have le: "fs \<le> length (ClientAudioBuffer (snd ?r))" by (simp add: buf')
    from False pos have n'pos: "0 < ?n'"
      by (simp add: div_greater_zero_iff)
    have idx: "Suc k + ?n' - 1 = k + Suc ?n' - 1" using n'pos by simp
    have "(?n' - 1) * fs + fs = ?n' * fs"
      using n'pos by (metis Suc_diff_1 add.commute mult_Suc)
    then have dr: "drop ((?n' - 1) * fs) (drop fs ?buf) = drop ((Suc ?n' - 1) * fs) ?buf"
      by (simp add: add.commute)
    from step.IH le show ?thesis
      unfolding eq n buf' idx dr by simp
  qed
qed

lemma FrameSize_default: "FrameSize getVADProcessor = 512"
  by (simp add: getVADProcessor_def DefaultVADConfig_def)

lemma SilenceThresholdMs_default: "SilenceThresholdMs getVADProcessor = 500"
  by (simp add: getVADProcessor_def DefaultVADConfig_def)

lemma processVAD_default_returns:
  "processVAD getVADProcessor env conn data =
     Some (fst (vad_loop getVADProcessor 1024 env 0 False
                  (conn\<lparr>ClientAudioBuffer := ClientAudioBuffer conn @ pcmData env data\<rparr>)),
           None,
           snd (vad_loop getVADProcessor 1024 env 0 False
                  (conn\<lparr>ClientAudioBuffer := ClientAudioBuffer conn @ pcmData env data\<rparr>)))"
  by (simp add: processVAD_def FrameSize_default Let_def split: prod.splits)

lemma IsVAD_eq:
  "IsVAD env conn data =
     vad_loop getVADProcessor 1024 env 0 False
       (conn\<lparr>ClientAudioBuffer := ClientAudioBuffer conn @ pcmData env data\<rparr>)"
  by (simp add: IsVAD_def processVAD_default_returns)

lemma IsVAD_silent:
  assumes "silent env"
  shows "IsVAD env conn data =
     (False,
      conn\<lparr>ClientAudioBuffer :=
             drop ((length (ClientAudioBuffer conn) + length (pcmData env data)) div 1024 * 1024)
               (ClientAudioBuffer conn @ pcmData env data),
           ClientVoiceStop := ClientVoiceStop conn \<or>
             (ClientHaveVoice conn \<and>
              (\<exists>j < (length (ClientAudioBuffer conn) + length (pcmData env data)) div 1024.
                 now_milli env j - ClientHaveVoiceLastTime conn \<ge> 500))\<rparr>)"
proof -
  have quiet: "\<And>k chunk. callVADService getVADProcessor (vad_http env k) chunk \<noteq> Inr True"
    using assms by (simp add: silent_def)
  show ?thesis
    unfolding IsVAD_eq
    by (subst vad_loop_silent [OF _ quiet]) (simp_all add: SilenceThresholdMs_default)
qed

text \<open>A guarded send writes its channel and the context, nothing else.\<close>

lemma guardedSend_room:
  assumes "\<not> cancelled" and "length chan < chanCapacity"
  shows "guardedSend s cancelled chan x = (False, chan @ [x])"
  using assms by (simp add: guardedSend_def)

lemma sendResponse_room:
  assumes "\<not> ctx_done w" and "length (responseChan w) < chanCapacity"
  shows "sendResponse s w messageType data =
     w\<lparr>responseChan := responseChan w @ [\<lparr> MessageType = messageType, Data = data \<rparr>]\<rparr>"
  using assms by (simp add: sendResponse_def guardedSend_room)

lemma sendResponse_frame:
  "connectionState (sendResponse s w messageType data) = connectionState w"
  "dialogueStore (sendResponse s w messageType data) = dialogueStore w"
  "ttsChan (sendResponse s w messageType data) = ttsChan w"
  "llmChan (sendResponse s w messageType data) = llmChan w"
  "config (sendResponse s w messageType data) = config w"
  by (simp_all add: sendResponse_def split: prod.splits)

lemma send2LLM_frame:
  "connectionState (send2LLM s w text) = connectionState w"
  "dialogueStore (send2LLM s w text) = dialogueStore w"
  "ttsChan (send2LLM s w text) = ttsChan w"
  "responseChan (send2LLM s w text) = responseChan w"
  "config (send2LLM s w text) = config w"
  by (simp_all add: send2LLM_def split: prod.splits)

lemma ProcessASR_state:
  "snd (ProcessASR http cs) = (cs, []) \<or> snd (ProcessASR http cs) = (cs, [ASRAudio cs]) \<or>
   snd (ProcessASR http cs) = (cs\<lparr>ASRAudio := []\<rparr>, [ASRAudio cs])"
  by (simp add: ProcessASR_def Let_def split: sum.splits)

lemma dispatch_after:
  "(ASRServerReceive (connectionState (fst (snd (dispatch env wsc)))) \<longrightarrow>
      \<not> ClientHaveVoice (connectionState (fst (snd (dispatch env wsc)))) \<and>
      \<not> ClientVoiceStop (connectionState (fst (snd (dispatch env wsc))))) \<and>
   ClientListenMode (connectionState (fst (snd (dispatch env wsc)))) =
     ClientListenMode (connectionState wsc)"
  using ProcessASR_state [of "asr_http env"
          "(connectionState wsc)\<lparr>ClientAbort := False, ASRServerReceive := False\<rparr>"]
  by (auto simp add: dispatch_def Let_def resetVAD_def send2LLM_frame split: prod.splits sum.splits)

lemma noVoice_flags:
  "ClientHaveVoice (noVoice env cfg cs) = ClientHaveVoice cs \<and>
   ClientVoiceStop (noVoice env cfg cs) = ClientVoiceStop cs \<and>
   ClientListenMode (noVoice env cfg cs) = ClientListenMode cs"
  by (simp add: noVoice_def Let_def)

lemma post_step:
  assumes "no_voice_pending wsc" "silent env"
  shows "\<not> sets_voice_stop env wsc data \<and>
         no_voice_pending (fst (snd (handleAudioMessage env wsc data)))"
proof (cases "ASRServerReceive (connectionState wsc)")
  case False
  then show ?thesis using assms(1)
    by (simp add: sets_voice_stop_def handleAudioMessage_def)
next
  case True
  with assms(1) have st: "ClientListenMode (connectionState wsc) = ''auto''"
     "\<not> ClientHaveVoice (connectionState wsc)" "\<not> ClientVoiceStop (connectionState wsc)"
    by (auto simp add: no_voice_pending_def)
  show ?thesis using True st
    by (simp add: sets_voice_stop_def handleAudioMessage_def detectVoice_def IsVAD_silent [OF assms(2)]
          no_voice_pending_def noVoice_flags)
qed

lemma pre_step:
  assumes "in_voiced_run L wsc" "silent env" "\<And>k. now_milli env k - L < 500"
  shows "\<not> sets_voice_stop env wsc data \<and>
         in_voiced_run L (fst (snd (handleAudioMessage env wsc data)))"
proof -
  have no: "\<And>j. \<not> 500 \<le> now_milli env j - L" using assms(3) by (simp add: not_le)
  show ?thesis using assms(1)
    by (simp add: sets_voice_stop_def handleAudioMessage_def detectVoice_def IsVAD_silent [OF assms(2)]
          in_voiced_run_def no Let_def)
qed

lemma trigger_step:
  assumes "in_voiced_run L wsc" "silent env"
    and "Suc k * 1024 \<le> length (ClientAudioBuffer (connectionState wsc)) + length (pcmData env data)"
    and "now_milli env k - L \<ge> 500"
  shows "sets_voice_stop env wsc data \<and>
         no_voice_pending (fst (snd (handleAudioMessage env wsc data)))"
proof -
  let ?n = "(length (ClientAudioBuffer (connectionState wsc)) + length (pcmData env data)) div 1024"
  have "k < ?n" using assms(3) by (simp add: less_eq_div_iff_mult_less_eq [symmetric] Suc_le_eq [symmetric])
  then have hit: "\<exists>j < ?n. 500 \<le> now_milli env j - L" using assms(4) by blast
  show ?thesis using assms(1) hit dispatch_after
    by (simp add: sets_voice_stop_def handleAudioMessage_def detectVoice_def IsVAD_silent [OF assms(2)]
          in_voiced_run_def Let_def no_voice_pending_def)
qed


lemma count_post:
  assumes "no_voice_pending wsc" "\<forall>(env, data) \<in> set frames. silent env"
  shows "voice_stop_count wsc frames = 0"
  using assms
proof (induction frames arbitrary: wsc)
  case Nil
  then show ?case by simp
next
  case (Cons f frames)
  obtain env data where f: "f = (env, data)" by (cases f)
  from Cons.prems f have "silent env" by simp
  from post_step [OF Cons.prems(1) this, of data] Cons.IH Cons.prems(2) f
  show ?case by simp
qed

lemma count_append:
  "voice_stop_count wsc (xs @ ys) = voice_stop_count wsc xs + voice_stop_count (feed wsc xs) ys"
  by (induction xs arbitrary: wsc) auto

lemma count_pre:
  assumes "in_voiced_run L wsc"
    and "\<forall>(env, data) \<in> set frames. silent env \<and> (\<forall>k. now_milli env k - L < 500)"
  shows "voice_stop_count wsc frames = 0 \<and> in_voiced_run L (feed wsc frames)"
  using assms
proof (induction frames arbitrary: wsc)
  case Nil
  then show ?case by simp
next
  case (Cons f frames)
  obtain env data where f: "f = (env, data)" by (cases f)
  from Cons.prems f have e: "silent env" "\<And>k. now_milli env k - L < 500" by simp_all
  from pre_step [OF Cons.prems(1) e, of data] Cons.IH Cons.prems(2) f
  show ?case by simp
qed

section \<open>Lemmas on \<open>IsVAD\<close> and on the concrete inputs\<close>

lemma silent_quiet: "silent quiet_env" "silent early_env" "silent late_env"
  by (simp_all add: silent_def quiet_env_def early_env_def late_env_def callVADService_def Let_def)

lemma pcm_quiet [simp]: "pcmData early_env d = d" "pcmData late_env d = d" "pcmData quiet_env d = d"
  by (simp_all add: pcmData_def quiet_env_def early_env_def late_env_def)

lemma voiced_state:
  "ASRServerReceive (connectionState voiced_wsc)"
  "ClientListenMode (connectionState voiced_wsc) = ''auto''"
  "ClientHaveVoice (connectionState voiced_wsc)"
  "\<not> ClientVoiceStop (connectionState voiced_wsc)"
  "ClientHaveVoiceLastTime (connectionState voiced_wsc) = 1000"
  "ASRAudio (connectionState voiced_wsc) = [[1], [2]]"
  "ClientAudioBuffer (connectionState voiced_wsc) = []"
  by (simp_all add: voiced_wsc_def base_wsc_def idle_conn_def)

lemma late_failing_silent: "silent late_failing_env"
  by (simp add: silent_def late_failing_env_def quiet_env_def late_env_def callVADService_def Let_def)

lemma late_IsVAD:
  "IsVAD late_env (connectionState voiced_wsc) (replicate 1024 0) =
     (False, (connectionState voiced_wsc)\<lparr>ClientAudioBuffer := [], ClientVoiceStop := True\<rparr>)"
  "IsVAD late_failing_env (connectionState voiced_wsc) (replicate 1024 0) =
     (False, (connectionState voiced_wsc)\<lparr>ClientAudioBuffer := [], ClientVoiceStop := True\<rparr>)"
   by (simp_all add: IsVAD_silent silent_quiet late_failing_silent voiced_state)
      (simp_all add: late_env_def late_failing_env_def quiet_env_def pcmData_def)

lemma IsVAD_flags:
  "(ClientVoiceStop cs \<longrightarrow> ClientVoiceStop (snd (IsVAD env cs data))) \<and>
   (ClientHaveVoice cs \<longrightarrow> ClientHaveVoice (snd (IsVAD env cs data))) \<and>
   (ClientVoiceStop (snd (IsVAD env cs data)) \<longrightarrow>
      ClientVoiceStop cs \<or> ClientHaveVoice (snd (IsVAD env cs data)))"
  unfolding IsVAD_eq
  using vad_loop_flags [of 1024 "cs\<lparr>ClientAudioBuffer := ClientAudioBuffer cs @ pcmData env data\<rparr>"
          getVADProcessor env 0 False]
  by simp

lemma IsVAD_erase: "vad_erase (snd (IsVAD env cs data)) = vad_erase cs"
  unfolding IsVAD_eq by (subst vad_loop_erase) (simp_all add: vad_erase_def)

lemma IsVAD_short:
  assumes "length (ClientAudioBuffer cs) + length (pcmData env data) < 1024"
  shows "IsVAD env cs data = (False, cs\<lparr>ClientAudioBuffer := ClientAudioBuffer cs @ pcmData env data\<rparr>)"
  unfolding IsVAD_eq using assms by (intro vad_loop_stop) simp

lemma IsVAD_last:
  assumes "1024 \<le> length (ClientAudioBuffer cs) + length (pcmData env data)"
  shows "fst (IsVAD env cs data) \<longleftrightarrow>
     callVADService getVADProcessor
       (vad_http env ((length (ClientAudioBuffer cs) + length (pcmData env data)) div 1024 - 1))
       (take 1024 (drop (((length (ClientAudioBuffer cs) + length (pcmData env data)) div 1024 - 1) * 1024)
                     (ClientAudioBuffer cs @ pcmData env data))) = Inr True"
  unfolding IsVAD_eq
  using assms
    vad_loop_last [of 1024 "cs\<lparr>ClientAudioBuffer := ClientAudioBuffer cs @ pcmData env data\<rparr>"
                     getVADProcessor env 0 False]
  by simp

lemma detectVoice_ASRAudio: "ASRAudio (snd (detectVoice env cs data)) = ASRAudio cs"
  using arg_cong [OF IsVAD_erase [of env cs data], of ASRAudio]
  by (simp add: detectVoice_def vad_erase_def)

section \<open>Lemmas on the session\<close>

lemma dispatch_short:
  assumes "length (ASRAudio (connectionState wsc)) < 3"
  shows "dispatch env wsc =
     (None,
      wsc\<lparr>connectionState :=
            resetVAD ((connectionState wsc)\<lparr>ClientAbort := False, ASRServerReceive := True\<rparr>)\<rparr>,
      [])"
  using assms by (simp add: dispatch_def)

lemma dispatch_flags:
  "(fst (dispatch env wsc) = None \<longrightarrow>
      \<not> ClientVoiceStop (connectionState (fst (snd (dispatch env wsc)))) \<and>
      \<not> ClientHaveVoice (connectionState (fst (snd (dispatch env wsc))))) \<and>
   (fst (dispatch env wsc) \<noteq> None \<longrightarrow>
      ClientVoiceStop (connectionState (fst (snd (dispatch env wsc))))
        = ClientVoiceStop (connectionState wsc) \<and>
      ClientHaveVoice (connectionState (fst (snd (dispatch env wsc))))
        = ClientHaveVoice (connectionState wsc))"
  using ProcessASR_state [of "asr_http env"
          "(connectionState wsc)\<lparr>ClientAbort := False, ASRServerReceive := False\<rparr>"]
  by (auto simp add: dispatch_def Let_def resetVAD_def send2LLM_frame split: prod.splits sum.splits)

text \<open>
  The two ways in which \<open>ProcessASR\<close> fails on a non-empty queue, and what a failure leaves
  behind in the dispatch block: the error is returned from the handler at once, so audio stays
  refused and the queue stays as it is.
\<close>

lemma ProcessASR_too_large:
  assumes "ASRAudio conn \<noteq> []"
    and "MaxAudioSize getASRProcessor < sum_list (map (\<lambda>chunk. int (length chunk)) (ASRAudio conn))"
  shows "ProcessASR http conn =
     (Inl (ErrAudioTooLarge (sum_list (map (\<lambda>chunk. int (length chunk)) (ASRAudio conn)))
             (MaxAudioSize getASRProcessor)),
      conn, [])"
  using assms by (simp add: ProcessASR_def Let_def)

lemma ProcessASR_upstream:
  assumes "ASRAudio conn \<noteq> []"
    and "sum_list (map (\<lambda>chunk. int (length chunk)) (ASRAudio conn)) \<le> MaxAudioSize getASRProcessor"
    and "callASRService getASRProcessor http conn = Inl err"
  shows "ProcessASR http conn = (Inl err, conn, [ASRAudio conn])"
  using assms by (simp add: ProcessASR_def Let_def)

lemma ProcessASR_failure_state:
  assumes "fst (ProcessASR http conn) = Inl err"
  shows "fst (snd (ProcessASR http conn)) = conn"
proof (cases "callASRService getASRProcessor http conn")
  case (Inl e)
  then show ?thesis by (simp add: ProcessASR_def Let_def)
next
  case (Inr t)
  with assms show ?thesis by (simp add: ProcessASR_def Let_def split: if_splits)
qed

lemma dispatch_failure:
  assumes "3 \<le> length (ASRAudio (connectionState wsc))"
    and "fst (ProcessASR (asr_http env)
               ((connectionState wsc)\<lparr>ClientAbort := False, ASRServerReceive := False\<rparr>)) = Inl err"
  shows "fst (dispatch env wsc) = Some err \<and>
         \<not> ASRServerReceive (connectionState (fst (snd (dispatch env wsc)))) \<and>
         ASRAudio (connectionState (fst (snd (dispatch env wsc)))) = ASRAudio (connectionState wsc) \<and>
         llmChan (fst (snd (dispatch env wsc))) = llmChan wsc"
proof -
  let ?cs = "(connectionState wsc)\<lparr>ClientAbort := False, ASRServerReceive := False\<rparr>"
  define calls where "calls = snd (snd (ProcessASR (asr_http env) ?cs))"
  have "fst (snd (ProcessASR (asr_http env) ?cs)) = ?cs"
    using assms(2) by (rule ProcessASR_failure_state)
  with assms(2) have p: "ProcessASR (asr_http env) ?cs = (Inl err, ?cs, calls)"
    unfolding calls_def by (metis prod.collapse)
  have "dispatch env wsc = (Some err, wsc\<lparr>connectionState := ?cs\<rparr>, calls)"
    using assms(1) by (simp add: dispatch_def p)
  then show ?thesis by simp
qed

lemma handleAudioMessage_dispatch:
  assumes "ASRServerReceive (connectionState wsc)"
    and "fst (detectVoice env (connectionState wsc) data)
           \<or> ClientHaveVoice (snd (detectVoice env (connectionState wsc) data))"
    and "ClientVoiceStop (snd (detectVoice env (connectionState wsc) data))"
  shows "handleAudioMessage env wsc data =
     dispatch env
       (wsc\<lparr>connectionState := (snd (detectVoice env (connectionState wsc) data))
              \<lparr>ClientNoVoiceLastTime := 0,
               ASRAudio := ASRAudio (connectionState wsc) @ [data]\<rparr>\<rparr>)"
proof -
  define r where "r = detectVoice env (connectionState wsc) data"
  have q: "ASRAudio (snd r) = ASRAudio (connectionState wsc)"
    by (simp add: r_def detectVoice_ASRAudio)
  have "handleAudioMessage env wsc data =
     dispatch env (wsc\<lparr>connectionState := (snd r)\<lparr>ClientNoVoiceLastTime := 0,
               ASRAudio := ASRAudio (snd r) @ [data]\<rparr>\<rparr>)"
    using assms unfolding r_def [symmetric]
    by (auto simp add: handleAudioMessage_def Let_def r_def [symmetric] split: prod.splits)
  then show ?thesis unfolding q by (simp add: r_def)
qed

lemma handleAudioMessage_flags:
  assumes "cs = connectionState wsc"
    and "cs' = connectionState (fst (snd (handleAudioMessage env wsc data)))"
  shows "(\<not> ClientVoiceStop cs \<and> ClientVoiceStop cs' \<longrightarrow> ClientHaveVoice cs') \<and>
         ((ClientVoiceStop cs \<and> \<not> ClientVoiceStop cs') \<or> (ClientHaveVoice cs \<and> \<not> ClientHaveVoice cs')
            \<longrightarrow> \<not> ClientVoiceStop cs' \<and> \<not> ClientHaveVoice cs')"
proof (cases "ASRServerReceive cs")
  case False
  then show ?thesis using assms by (simp add: handleAudioMessage_def)
next
  case True
  define r where "r = detectVoice env cs data"
  have fl: "(ClientVoiceStop cs \<longrightarrow> ClientVoiceStop (snd r)) \<and>
            (ClientHaveVoice cs \<longrightarrow> ClientHaveVoice (snd r)) \<and>
            (ClientVoiceStop (snd r) \<longrightarrow> ClientVoiceStop cs \<or> ClientHaveVoice (snd r))"
    using IsVAD_flags [of cs env data] by (simp add: r_def detectVoice_def)
  let ?w2 = "wsc\<lparr>connectionState := (snd r)\<lparr>ClientNoVoiceLastTime := 0,
                 ASRAudio := ASRAudio (snd r) @ [data]\<rparr>\<rparr>"
  have h: "handleAudioMessage env wsc data =
      (if \<not> fst r \<and> \<not> ClientHaveVoice (snd r)
       then (None, wsc\<lparr>connectionState := noVoice env (config wsc) (snd r)\<rparr>, [])
       else if ClientVoiceStop (snd r) then dispatch env ?w2 else (None, ?w2, []))"
    using True assms(1) by (simp add: handleAudioMessage_def r_def Let_def split: prod.splits)
  show ?thesis
  proof (cases "\<not> fst r \<and> \<not> ClientHaveVoice (snd r)")
    case True
    then show ?thesis using fl assms(2) by (auto simp add: h noVoice_flags)
  next
    case nv: False
    show ?thesis
    proof (cases "ClientVoiceStop (snd r)")
      case False
      then show ?thesis using fl nv assms(2) by (auto simp add: h)
    next
      case True
      have "handleAudioMessage env wsc data = dispatch env ?w2"
        using nv True by (auto simp add: h)
      then have cs': "cs' = connectionState (fst (snd (dispatch env ?w2)))"
        by (simp add: assms(2))
      show ?thesis
        using dispatch_flags [of env ?w2] fl True unfolding cs'
        by (cases "fst (dispatch env ?w2) = None") auto
    qed
  qed
qed

lemma handleTextMessage_flags:
  "\<not> ClientVoiceStop (connectionState w) \<and>
   ClientVoiceStop (connectionState (snd (handleTextMessage u w d)))
     \<longrightarrow> ClientHaveVoice (connectionState (snd (handleTextMessage u w d)))"
  by (simp add: handleTextMessage_def Let_def sendResponse_frame split: option.splits)

lemma handleTextMessage_gate:
  "ASRServerReceive (connectionState (snd (handleTextMessage u w d)))
     = ASRServerReceive (connectionState w)"
  by (simp add: handleTextMessage_def Let_def sendResponse_frame split: option.splits)

lemma handleTextMessage_dialogueStore:
  "dialogueStore (snd (handleTextMessage u w d)) = dialogueStore w"
  by (simp add: handleTextMessage_def Let_def sendResponse_frame split: option.splits)

lemma handleTextMessage_ttsChan:
  "ttsChan (snd (handleTextMessage u w d)) = ttsChan w"
  by (simp add: handleTextMessage_def Let_def sendResponse_frame split: option.splits)

lemma dispatch_dialogueStore:
  "dialogueStore (fst (snd (dispatch env w))) = dialogueStore w"
  "ttsChan (fst (snd (dispatch env w))) = ttsChan w"
  by (simp_all add: dispatch_def Let_def send2LLM_frame split: prod.splits sum.splits)

lemma handleAudioMessage_dialogueStore:
  "dialogueStore (fst (snd (handleAudioMessage env w d))) = dialogueStore w"
  "ttsChan (fst (snd (handleAudioMessage env w d))) = ttsChan w"
  by (simp_all add: handleAudioMessage_def Let_def dispatch_dialogueStore split: prod.splits)

text \<open>
  No other goroutine writes the dialogue history: only the generation stage does. And no
  activity makes the fragment channel exceed its capacity.
\<close>

lemma act_dialogueStore:
  "dialogueStore (act w a) = dialogueStore w"
  by (cases a) (simp_all add: handleTextMessage_dialogueStore handleAudioMessage_dialogueStore)

lemma act_ttsChan_bound:
  "length (ttsChan w) \<le> chanCapacity \<Longrightarrow> length (ttsChan (act w a)) \<le> chanCapacity"
  by (cases a) (simp_all add: handleTextMessage_ttsChan handleAudioMessage_dialogueStore)

lemma interfere_ttsChan_bound:
  "length (ttsChan w) \<le> chanCapacity
     \<Longrightarrow> length (ttsChan (interfere w steps)) \<le> chanCapacity"
  unfolding interfere_def
  by (induction steps arbitrary: w) (simp_all add: act_ttsChan_bound)

lemma interfere_Nil:
  "interfere w [] = w"
  by (simp add: interfere_def)

lemma interfere_dialogueStore:
  "dialogueStore (interfere w steps) = dialogueStore w"
  unfolding interfere_def
  by (induction steps arbitrary: w) (simp_all add: act_dialogueStore)

lemma llm_loop_abort:
  assumes "ClientAbort (connectionState w)"
  shows "llm_loop w full warns rest = (None, w, full, warns)"
  using assms by (cases rest) simp_all


lemma llm_loop_among_abort:
  assumes "ClientAbort (connectionState w)"
  shows "llm_loop_among others k w full warns rest = (None, w, full, warns)"
  using assms by (cases rest) simp_all

text \<open>With the other goroutines idle, the loop among them is the loop alone.\<close>

lemma llm_loop_among_alone:
  "llm_loop_among (\<lambda>k. []) k w full warns lines = llm_loop w full warns lines"
proof (induction lines arbitrary: k w full warns)
  case Nil
  then show ?case by (simp add: interfere_Nil)
next
  case (Cons line lines)
  then show ?case by (cases line) (simp_all add: interfere_Nil)
qed

text \<open>
  Among the other goroutines too, the push of a fragment is a step that always goes on with
  the remaining lines, and the fragment channel stays within its capacity.
\<close>

lemma llm_loop_among_push:
  assumes "\<not> ClientAbort (connectionState w)"
    and "llm_Status r = ''streaming''" and "Chunk r \<noteq> []"
  shows "llm_loop_among others k w full warns (Parsed r # rest) =
     (if length (ttsChan (interfere w (others k))) < chanCapacity
      then llm_loop_among others (Suc k)
             ((interfere w (others k))\<lparr>ttsChan := ttsChan (interfere w (others k)) @ [Chunk r]\<rparr>)
             (full @ Chunk r) warns rest
      else llm_loop_among others (Suc k) (interfere w (others k))
             (full @ Chunk r) (warns @ [WarnChannelSend]) rest)"
  using assms by simp

lemma llm_loop_among_bound:
  "length (ttsChan w) \<le> chanCapacity
     \<Longrightarrow> length (ttsChan (fst (snd (llm_loop_among others k w full warns lines)))) \<le> chanCapacity"
proof (induction lines arbitrary: k w full warns)
  case Nil
  then show ?case by (simp add: interfere_ttsChan_bound)
next
  case (Cons line lines)
  have b: "length (ttsChan (interfere w (others k))) \<le> chanCapacity"
    using Cons.prems by (rule interfere_ttsChan_bound)
  show ?case
    using Cons.IH b Cons.prems by (cases line) (simp_all add: Let_def)
qed

text \<open>
  An abort that arrives while the loop waits for a line is seen at the check of the next
  iteration: the line that was awaited is handled as if it were the last one.
\<close>

lemma llm_loop_among_late:
  assumes "ClientAbort (connectionState (interfere w (others k)))"
  shows "llm_loop_among others k w full warns (line # rest)
       = llm_loop_among others k w full warns [line]"
proof (cases "ClientAbort (connectionState w)")
  case True
  then show ?thesis by (simp add: llm_loop_among_abort)
next
  case False
  have ab: "\<And>f ws ls. llm_loop_among others (Suc k) (interfere w (others k)) f ws ls
              = (None, interfere w (others k), f, ws)"
    using assms by (rule llm_loop_among_abort)
  have ab2: "\<And>c f ws ls. llm_loop_among others (Suc k)
                ((interfere w (others k))\<lparr>ttsChan := c\<rparr>) f ws ls
              = (None, (interfere w (others k))\<lparr>ttsChan := c\<rparr>, f, ws)"
    using assms by (intro llm_loop_among_abort) simp
  show ?thesis
    using False assms by (cases line) (simp_all add: ab ab2)
qed

lemma ProcessLLM_abort:
  assumes "ClientAbort (connectionState (interfere w (llm_requesting env)))"
  shows "dialogueStore (fst (snd (ProcessLLM env w))) = dialogueStore w \<and>
         snd (snd (ProcessLLM env w)) = []"
proof -
  let ?w1 = "interfere w (llm_requesting env)"
  let ?w2 = "?w1\<lparr>connectionState := (connectionState ?w1)\<lparr>LLMFlag := True\<rparr>\<rparr>"
  have "\<And>lines. llm_loop_among (llm_reading env) 0 ?w2 [] [] lines = (None, ?w2, [], [])"
    using assms by (intro llm_loop_among_abort) simp
  then show ?thesis
    by (simp add: ProcessLLM_def Let_def interfere_dialogueStore split: llm_exchange.splits)
qed

lemma handleTTS_recv_abort:
  assumes "ClientAbort (connectionState w)"
  shows "handleTTS_recv env w text =
     (if StartSpeakTime (connectionState w) = 0
      then w\<lparr>connectionState := (connectionState w)\<lparr>StartSpeakTime := tts_now_start env\<rparr>\<rparr>
      else w)"
  using assms by (simp add: handleTTS_recv_def Let_def)

lemma handleTTS_abort:
  assumes "ClientAbort (connectionState w)" "\<not> ctx_done w"
    and "\<forall>env \<in> set envs. tts_waiting env = []"
  shows "responseChan (handleTTS envs w) = responseChan w \<and>
         ttsChan (handleTTS envs w) = drop (length envs) (ttsChan w) \<and>
         dialogueStore (handleTTS envs w) = dialogueStore w \<and>
         ClientAbort (connectionState (handleTTS envs w))"
  using assms
proof (induction envs arbitrary: w)
  case Nil
  then show ?case by simp
next
  case (Cons env envs)
  show ?case
  proof (cases "ttsChan w")
    case Nil
    then show ?thesis using Cons.prems by (simp add: handleTTS_round_def interfere_Nil)
  next
    case (Cons t rest)
    let ?w' = "handleTTS_recv env (w\<lparr>ttsChan := rest\<rparr>) t"
    have r: "handleTTS_round env w = Stepped ?w'"
      using Cons Cons.prems by (simp add: handleTTS_round_def interfere_Nil)
    have w': "ClientAbort (connectionState ?w')" "\<not> ctx_done ?w'"
         "responseChan ?w' = responseChan w" "ttsChan ?w' = rest"
         "dialogueStore ?w' = dialogueStore w"
      using Cons.prems by (simp_all add: handleTTS_recv_abort)
    have rest: "\<forall>env \<in> set envs. tts_waiting env = []"
      using Cons.prems(3) by simp
    from Cons.IH [OF w'(1,2) rest] show ?thesis
      by (simp add: r w' Cons)
  qed
qed

text \<open>The abort command arriving mid-reply on a live connection with an empty response channel.\<close>

lemma abort_mid_reply:
  "interfere speaking_wsc (abort_arrives 0) = aborted_wsc"
  "interfere speaking_wsc (llm_requesting llm_interrupted) = aborted_wsc"
  by (simp_all add: interfere_def abort_arrives_def llm_interrupted_def handleTextMessage_def
        abort_env_def abort_cmd_def sendResponse_def guardedSend_def chanCapacity_def prompt_def
        zeroCommand_def Let_def TextMessage_def aborted_wsc_def speaking_wsc_def base_wsc_def
        idle_conn_def)

section \<open>Properties\<close>

text \<open>
  C1 (the code departs from the claim). When the recognition collaborator fails, the dispatch
  path does return the upstream error and routes no text to the dialogue pipeline, but
  \<open>handleAudioMessage\<close> returns at once (websocket.go 381): the utterance queue is not cleared
  and \<open>ASRServerReceive\<close> stays false. Evaluated in manual mode after "listen stop" with two
  frames queued, when a third frame arrives and the service answers HTTP 500: the error comes
  back, one request was made, the three frames are still queued and audio is not accepted.
  From that state every later audio frame is dropped, and no control frame re-opens acceptance.
  The same holds for every failure of \<open>ProcessASR\<close> in the dispatch block
  (\<open>dispatch_failure\<close> above).
\<close>

theorem recognition_failure_blocks_session:
  "handleAudioMessage failing_env stop_wsc [3]
     = (Some (ErrASRStatusCode 500), stuck_wsc, [[[1], [2], [3]]]) \<and>
   \<not> ASRServerReceive (connectionState stuck_wsc) \<and>
   ASRAudio (connectionState stuck_wsc) = [[1], [2], [3]] \<and>
   (\<forall>env data. handleAudioMessage env stuck_wsc data = (None, stuck_wsc, [])) \<and>
   (\<forall>u d. \<not> ASRServerReceive (connectionState (snd (handleTextMessage u stuck_wsc d))))"
proof -
  have g: "\<not> ASRServerReceive (connectionState stuck_wsc)"
    by (simp add: stuck_wsc_def)
  have "handleAudioMessage failing_env stop_wsc [3]
     = (Some (ErrASRStatusCode 500), stuck_wsc, [[[1], [2], [3]]])"
    by (simp add: handleAudioMessage_def detectVoice_def stop_wsc_def stuck_wsc_def base_wsc_def
          idle_conn_def failing_env_def quiet_env_def dispatch_def ProcessASR_def
          callASRService_def getASRProcessor_def DefaultASRConfig_def Let_def)
  moreover have "ASRAudio (connectionState stuck_wsc) = [[1], [2], [3]]"
    by (simp add: stuck_wsc_def)
  moreover have "\<forall>env data. handleAudioMessage env stuck_wsc data = (None, stuck_wsc, [])"
    using g by (simp add: handleAudioMessage_def)
  moreover have "\<forall>u d. \<not> ASRServerReceive (connectionState (snd (handleTextMessage u stuck_wsc d)))"
    using g by (simp add: handleTextMessage_gate)
  ultimately show ?thesis using g by blast
qed

text \<open>
  C2 (the code departs from the claim). With more than 2 MB queued at dispatch, \<open>ProcessASR\<close>
  returns the too-large error without a request to the recognition collaborator, but through
  the same early return the queue is not cleared and \<open>ASRServerReceive\<close> stays false.
  Evaluated with two chunks of one MiB queued and a one-byte frame arriving (2097153 bytes
  against the limit of 2097152): no request is made, the three chunks are still queued, audio
  is not accepted, and every later audio frame is dropped.
\<close>

theorem oversized_utterance_blocks_session:
  "handleAudioMessage quiet_env big_wsc [0]
     = (Some (ErrAudioTooLarge 2097153 2097152), big_stuck_wsc, []) \<and>
   \<not> ASRServerReceive (connectionState big_stuck_wsc) \<and>
   length (ASRAudio (connectionState big_stuck_wsc)) = 3 \<and>
   (\<forall>env data. handleAudioMessage env big_stuck_wsc data = (None, big_stuck_wsc, [])) \<and>
   (\<forall>u d. \<not> ASRServerReceive (connectionState (snd (handleTextMessage u big_stuck_wsc d))))"
proof -
  have g: "\<not> ASRServerReceive (connectionState big_stuck_wsc)"
    by (simp add: big_stuck_wsc_def)
  have "handleAudioMessage quiet_env big_wsc [0]
     = (Some (ErrAudioTooLarge 2097153 2097152), big_stuck_wsc, [])"
    by (simp add: handleAudioMessage_def detectVoice_def big_wsc_def big_stuck_wsc_def base_wsc_def
          idle_conn_def quiet_env_def dispatch_def ProcessASR_def
          callASRService_def getASRProcessor_def DefaultASRConfig_def Let_def)
  moreover have "length (ASRAudio (connectionState big_stuck_wsc)) = 3"
    by (simp add: big_stuck_wsc_def)
  moreover have "\<forall>env data. handleAudioMessage env big_stuck_wsc data = (None, big_stuck_wsc, [])"
    using g by (simp add: handleAudioMessage_def)
  moreover have "\<forall>u d. \<not> ASRServerReceive (connectionState (snd (handleTextMessage u big_stuck_wsc d)))"
    using g by (simp add: handleTextMessage_gate)
  ultimately show ?thesis using g by blast
qed

text \<open>
  C3. Take a connection in automatic mode that accepts audio and is in a voiced run (voice
  heard, utterance not yet marked as ended), and let only unvoiced analysis windows follow:
  frames \<open>pre\<close> all of whose windows come less than the silence threshold after the last
  voiced window, then a frame \<open>(e, d)\<close> that completes a window \<open>k\<close> for which the clock has
  reached the threshold, then any frames \<open>post\<close>, however long the silence lasts. Over the
  whole run the segmenter sets voice-stop exactly once: the flag goes from false to true at one
  frame, and at no later frame of the silence.
\<close>

theorem voice_stop_set_exactly_once:
  assumes "ASRServerReceive (connectionState wsc)"
    and "ClientListenMode (connectionState wsc) = ''auto''"
    and "ClientHaveVoice (connectionState wsc)"
    and "\<not> ClientVoiceStop (connectionState wsc)"
    and quiet: "\<forall>(env, data) \<in> set (pre @ (e, d) # post). silent env"
    and below: "\<forall>(env, data) \<in> set pre. \<forall>k.
        now_milli env k - ClientHaveVoiceLastTime (connectionState wsc)
          < SilenceThresholdMs getVADProcessor"
    and window: "Suc k * nat (FrameSize getVADProcessor * 2)
        \<le> length (ClientAudioBuffer (connectionState (feed wsc pre))) + length (pcmData e d)"
    and reach: "now_milli e k - ClientHaveVoiceLastTime (connectionState wsc)
        \<ge> SilenceThresholdMs getVADProcessor"
  shows "voice_stop_count wsc (pre @ (e, d) # post) = 1"
proof -
  let ?L = "ClientHaveVoiceLastTime (connectionState wsc)"
  have run: "in_voiced_run ?L wsc"
    using assms(1-4) by (simp add: in_voiced_run_def)
  have "\<forall>(env, data) \<in> set pre. silent env \<and> (\<forall>k. now_milli env k - ?L < 500)"
    using quiet below by (auto simp add: SilenceThresholdMs_default)
  from count_pre [OF run this]
  have pre: "voice_stop_count wsc pre = 0" "in_voiced_run ?L (feed wsc pre)" by simp_all
  have e: "silent e" using quiet by simp
  have w: "Suc k * 1024
      \<le> length (ClientAudioBuffer (connectionState (feed wsc pre))) + length (pcmData e d)"
    using window by (simp add: FrameSize_default)
  have r: "now_milli e k - ?L \<ge> 500" using reach by (simp add: SilenceThresholdMs_default)
  from trigger_step [OF pre(2) e w r]
  have trig: "sets_voice_stop e (feed wsc pre) d"
       "no_voice_pending (fst (snd (handleAudioMessage e (feed wsc pre) d)))" by simp_all
  have "\<forall>(env, data) \<in> set post. silent env" using quiet by simp
  from count_post [OF trig(2) this] trig(1) pre(1)
  show ?thesis by (simp add: count_append)
qed

theorem voice_stop_set_exactly_once_witness:
  "silent early_env \<and> silent late_env \<and>
   ClientHaveVoice (connectionState voiced_wsc) \<and>
   now_milli early_env 0 - ClientHaveVoiceLastTime (connectionState voiced_wsc) < 500 \<and>
   now_milli late_env 0 - ClientHaveVoiceLastTime (connectionState voiced_wsc) \<ge> 500 \<and>
   voice_stop_count voiced_wsc
     ([(early_env, replicate 100 0)] @ (late_env, replicate 1024 0) # [(late_env, replicate 1024 0)])
     = 1"
proof -
  have st: "ASRServerReceive (connectionState voiced_wsc)"
      "ClientListenMode (connectionState voiced_wsc) = ''auto''"
      "ClientHaveVoice (connectionState voiced_wsc)"
      "\<not> ClientVoiceStop (connectionState voiced_wsc)"
      "ClientHaveVoiceLastTime (connectionState voiced_wsc) = 1000"
    by (simp_all add: voiced_wsc_def base_wsc_def idle_conn_def)
  have quiet: "\<forall>(env, data) \<in> set ([(early_env, replicate 100 0)] @ (late_env, replicate 1024 0)
                   # [(late_env, replicate 1024 0)]). silent env"
    by (simp add: silent_quiet)
  have below: "\<forall>(env, data) \<in> set [(early_env, replicate 100 (0::byte))]. \<forall>k.
        now_milli env k - ClientHaveVoiceLastTime (connectionState voiced_wsc)
          < SilenceThresholdMs getVADProcessor"
    by (simp add: st SilenceThresholdMs_default early_env_def quiet_env_def)
  have buf: "ClientAudioBuffer (connectionState (feed voiced_wsc [(early_env, replicate 100 0)]))
       = replicate 100 0"
    by (simp add: handleAudioMessage_def detectVoice_def st IsVAD_silent [OF silent_quiet(2)] Let_def)
       (simp add: voiced_wsc_def base_wsc_def idle_conn_def early_env_def quiet_env_def)
  have window: "Suc 0 * nat (FrameSize getVADProcessor * 2)
        \<le> length (ClientAudioBuffer (connectionState (feed voiced_wsc [(early_env, replicate 100 0)])))
            + length (pcmData late_env (replicate 1024 0))"
    by (simp add: buf FrameSize_default)
  have reach: "now_milli late_env 0 - ClientHaveVoiceLastTime (connectionState voiced_wsc)
        \<ge> SilenceThresholdMs getVADProcessor"
    by (simp add: st SilenceThresholdMs_default late_env_def quiet_env_def)
  have once: "voice_stop_count voiced_wsc
     ([(early_env, replicate 100 0)] @ (late_env, replicate 1024 0) # [(late_env, replicate 1024 0)])
     = 1"
    by (rule voice_stop_set_exactly_once [OF st(1-4) quiet below window reach])
  have "now_milli early_env 0 - 1000 < 500" "now_milli late_env 0 - 1000 \<ge> 500"
    by (simp_all add: late_env_def early_env_def quiet_env_def)
  with once silent_quiet st show ?thesis by (simp del: voice_stop_count.simps)
qed

text \<open>
  C4. An utterance of fewer than 3 chunks is discarded without recognition. Whenever the
  dispatch block is entered with fewer than 3 chunks queued, it returns no error, makes no
  request to the recognition collaborator, clears the queue, re-enables audio acceptance and
  routes nothing to the dialogue pipeline. The same seen from \<open>handleAudioMessage\<close>: a frame
  that is accepted, passes voice detection with voice-stop set, and is at most the second
  chunk of its utterance, ends in exactly that way.
\<close>

theorem short_utterance_discarded:
  "(length (ASRAudio (connectionState w1)) < 3
      \<longrightarrow> dispatch e1 w1 =
            (None,
             w1\<lparr>connectionState :=
                  resetVAD ((connectionState w1)\<lparr>ClientAbort := False, ASRServerReceive := True\<rparr>)\<rparr>,
             []) \<and>
          ASRAudio (connectionState (fst (snd (dispatch e1 w1)))) = [] \<and>
          ASRServerReceive (connectionState (fst (snd (dispatch e1 w1)))) \<and>
          llmChan (fst (snd (dispatch e1 w1))) = llmChan w1) \<and>
   (ASRServerReceive (connectionState w2) \<and>
    (fst (detectVoice e2 (connectionState w2) d2)
       \<or> ClientHaveVoice (snd (detectVoice e2 (connectionState w2) d2))) \<and>
    ClientVoiceStop (snd (detectVoice e2 (connectionState w2) d2)) \<and>
    length (ASRAudio (connectionState w2) @ [d2]) < 3
      \<longrightarrow> fst (handleAudioMessage e2 w2 d2) = None \<and>
          snd (snd (handleAudioMessage e2 w2 d2)) = [] \<and>
          ASRAudio (connectionState (fst (snd (handleAudioMessage e2 w2 d2)))) = [] \<and>
          ASRServerReceive (connectionState (fst (snd (handleAudioMessage e2 w2 d2)))) \<and>
          llmChan (fst (snd (handleAudioMessage e2 w2 d2))) = llmChan w2)"
proof (intro conjI impI)
  assume a: "length (ASRAudio (connectionState w1)) < 3"
  show d: "dispatch e1 w1 =
            (None,
             w1\<lparr>connectionState :=
                  resetVAD ((connectionState w1)\<lparr>ClientAbort := False, ASRServerReceive := True\<rparr>)\<rparr>,
             [])"
    using a by (rule dispatch_short)
  show "ASRAudio (connectionState (fst (snd (dispatch e1 w1)))) = []"
       "ASRServerReceive (connectionState (fst (snd (dispatch e1 w1))))"
       "llmChan (fst (snd (dispatch e1 w1))) = llmChan w1"
    unfolding d by (simp_all add: resetVAD_def)
next
  assume a: "ASRServerReceive (connectionState w2) \<and>
    (fst (detectVoice e2 (connectionState w2) d2)
       \<or> ClientHaveVoice (snd (detectVoice e2 (connectionState w2) d2))) \<and>
    ClientVoiceStop (snd (detectVoice e2 (connectionState w2) d2)) \<and>
    length (ASRAudio (connectionState w2) @ [d2]) < 3"
  let ?w = "w2\<lparr>connectionState := (snd (detectVoice e2 (connectionState w2) d2))
              \<lparr>ClientNoVoiceLastTime := 0,
               ASRAudio := ASRAudio (connectionState w2) @ [d2]\<rparr>\<rparr>"
  have h: "handleAudioMessage e2 w2 d2 = dispatch e2 ?w"
    using a by (intro handleAudioMessage_dispatch) simp_all
  have "length (ASRAudio (connectionState ?w)) < 3" using a by simp
  then have d: "dispatch e2 ?w =
     (None,
      ?w\<lparr>connectionState :=
            resetVAD ((connectionState ?w)\<lparr>ClientAbort := False, ASRServerReceive := True\<rparr>)\<rparr>,
      [])"
    by (rule dispatch_short)
  show "fst (handleAudioMessage e2 w2 d2) = None"
       "snd (snd (handleAudioMessage e2 w2 d2)) = []"
       "ASRAudio (connectionState (fst (snd (handleAudioMessage e2 w2 d2)))) = []"
       "ASRServerReceive (connectionState (fst (snd (handleAudioMessage e2 w2 d2))))"
       "llmChan (fst (snd (handleAudioMessage e2 w2 d2))) = llmChan w2"
    unfolding h d by (simp_all add: resetVAD_def)
qed

theorem short_utterance_discarded_witness:
  "length (ASRAudio (connectionState voiced_wsc)) < 3 \<and>
   dispatch quiet_env voiced_wsc =
     (None, voiced_wsc\<lparr>connectionState := idle_conn\<lparr>ClientNoVoiceLastTime := 0\<rparr>\<rparr>, []) \<and>
   ASRServerReceive (connectionState brief_wsc) \<and>
   detectVoice late_env (connectionState brief_wsc) (replicate 1024 0)
     = (False, (connectionState brief_wsc)\<lparr>ClientAudioBuffer := [], ClientVoiceStop := True\<rparr>) \<and>
   length (ASRAudio (connectionState brief_wsc) @ [replicate 1024 0]) < 3 \<and>
   fst (handleAudioMessage late_env brief_wsc (replicate 1024 0)) = None \<and>
   snd (snd (handleAudioMessage late_env brief_wsc (replicate 1024 0))) = [] \<and>
   ASRAudio (connectionState (fst (snd (handleAudioMessage late_env brief_wsc (replicate 1024 0))))) = [] \<and>
   ASRServerReceive (connectionState (fst (snd (handleAudioMessage late_env brief_wsc (replicate 1024 0))))) \<and>
   llmChan (fst (snd (handleAudioMessage late_env brief_wsc (replicate 1024 0)))) = []"
proof -
  note T = short_utterance_discarded
     [of voiced_wsc quiet_env brief_wsc late_env "replicate 1024 0"]
  have st: "ASRServerReceive (connectionState brief_wsc)"
      "ClientListenMode (connectionState brief_wsc) = ''auto''"
      "ClientHaveVoice (connectionState brief_wsc)"
      "\<not> ClientVoiceStop (connectionState brief_wsc)"
      "ClientHaveVoiceLastTime (connectionState brief_wsc) = 1000"
      "ASRAudio (connectionState brief_wsc) = [[1]]"
      "ClientAudioBuffer (connectionState brief_wsc) = []"
      "llmChan brief_wsc = []"
    by (simp_all add: brief_wsc_def base_wsc_def idle_conn_def)
  have dv: "detectVoice late_env (connectionState brief_wsc) (replicate 1024 0)
     = (False, (connectionState brief_wsc)\<lparr>ClientAudioBuffer := [], ClientVoiceStop := True\<rparr>)"
    by (simp add: detectVoice_def IsVAD_silent silent_quiet st)
       (simp add: late_env_def quiet_env_def pcmData_def)
  have h1: "length (ASRAudio (connectionState voiced_wsc)) < 3"
    by (simp add: voiced_state)
  have h2: "ASRServerReceive (connectionState brief_wsc) \<and>
    (fst (detectVoice late_env (connectionState brief_wsc) (replicate 1024 0))
       \<or> ClientHaveVoice (snd (detectVoice late_env (connectionState brief_wsc) (replicate 1024 0)))) \<and>
    ClientVoiceStop (snd (detectVoice late_env (connectionState brief_wsc) (replicate 1024 0))) \<and>
    length (ASRAudio (connectionState brief_wsc) @ [replicate 1024 0]) < 3"
    by (simp add: dv st)
  from T h1 have "dispatch quiet_env voiced_wsc =
            (None,
             voiced_wsc\<lparr>connectionState :=
                  resetVAD ((connectionState voiced_wsc)\<lparr>ClientAbort := False, ASRServerReceive := True\<rparr>)\<rparr>,
             [])"
    by blast
  then have c1: "dispatch quiet_env voiced_wsc =
     (None, voiced_wsc\<lparr>connectionState := idle_conn\<lparr>ClientNoVoiceLastTime := 0\<rparr>\<rparr>, [])"
    by (simp add: resetVAD_def voiced_wsc_def base_wsc_def idle_conn_def)
  from T h2 have c2:
    "fst (handleAudioMessage late_env brief_wsc (replicate 1024 0)) = None"
    "snd (snd (handleAudioMessage late_env brief_wsc (replicate 1024 0))) = []"
    "ASRAudio (connectionState (fst (snd (handleAudioMessage late_env brief_wsc (replicate 1024 0))))) = []"
    "ASRServerReceive (connectionState (fst (snd (handleAudioMessage late_env brief_wsc (replicate 1024 0)))))"
    "llmChan (fst (snd (handleAudioMessage late_env brief_wsc (replicate 1024 0)))) = llmChan brief_wsc"
    by blast+
  have h3: "length (ASRAudio (connectionState brief_wsc) @ [replicate 1024 0]) < 3"
    by (simp add: st)
  from h1 c1 st(1) dv h3 c2 show ?thesis unfolding st(8) by blast
qed

text \<open>
  C5 (the code departs from the claim). The two flags are not reset together after every
  dispatch: when recognition fails, \<open>handleAudioMessage\<close> returns at websocket.go 381,
  before the reset of lines 390-394, and \<open>ClientVoiceStop\<close> and \<open>ClientHaveVoice\<close> both
  stay true (the early return of C1). Evaluated in automatic mode, in a voiced run with two
  frames queued: a frame of 1024 bytes completes a silent window 600 ms after the last voice,
  the segmenter sets voice-stop, the utterance of three frames is dispatched (one request to
  the recognition service, answered with HTTP 500), and the handler returns the error with both
  flags still true and audio refused; every later audio frame is dropped, so the flags stay.
  With a recognition service that answers, the same frame ends with both flags false.
  From the state the failure leaves, "listen detect" clears \<open>ClientHaveVoice\<close> alone.
  The other half of the claim holds in the sense of the lemmas \<open>vad_window_rise\<close>,
  \<open>IsVAD_flags\<close>, \<open>handleTextMessage_flags\<close> and \<open>handleAudioMessage_flags\<close>: where
  voice-stop goes from false to true, has-voice holds (in the segmenter before the step; after
  "listen stop", which writes both, after it).
\<close>

theorem failed_dispatch_keeps_voice_flags:
  "\<not> ClientVoiceStop (connectionState voiced_wsc) \<and>
   handleAudioMessage late_failing_env voiced_wsc (replicate 1024 0)
     = (Some (ErrASRStatusCode 500), halted_wsc, [[[1], [2], replicate 1024 0]]) \<and>
   ClientVoiceStop (connectionState halted_wsc) \<and>
   ClientHaveVoice (connectionState halted_wsc) \<and>
   (\<forall>env data. handleAudioMessage env halted_wsc data = (None, halted_wsc, [])) \<and>
   handleAudioMessage late_env voiced_wsc (replicate 1024 0)
     = (None, served_wsc, [[[1], [2], replicate 1024 0]]) \<and>
   \<not> ClientVoiceStop (connectionState served_wsc) \<and>
   \<not> ClientHaveVoice (connectionState served_wsc) \<and>
   handleTextMessage detect_env halted_wsc []
     = (None, halted_wsc\<lparr>connectionState :=
                (connectionState halted_wsc)\<lparr>ClientHaveVoice := False, ASRAudio := []\<rparr>\<rparr>)"
proof -
  have g: "\<not> ASRServerReceive (connectionState halted_wsc)"
    by (simp add: halted_wsc_def)
  have t: "handleTextMessage detect_env halted_wsc []
     = (None, halted_wsc\<lparr>connectionState :=
                (connectionState halted_wsc)\<lparr>ClientHaveVoice := False, ASRAudio := []\<rparr>\<rparr>)"
    by (simp add: handleTextMessage_def detect_env_def listen_detect_def zeroCommand_def Let_def)
  have f: "handleAudioMessage late_failing_env voiced_wsc (replicate 1024 0)
     = (Some (ErrASRStatusCode 500), halted_wsc, [[[1], [2], replicate 1024 0]])"
    by (simp add: handleAudioMessage_def detectVoice_def voiced_state late_IsVAD dispatch_def
          ProcessASR_def callASRService_def getASRProcessor_def DefaultASRConfig_def Let_def)
       (simp add: late_failing_env_def voiced_wsc_def halted_wsc_def base_wsc_def idle_conn_def)
  have k: "handleAudioMessage late_env voiced_wsc (replicate 1024 0)
     = (None, served_wsc, [[[1], [2], replicate 1024 0]])"
    by (simp add: handleAudioMessage_def detectVoice_def voiced_state late_IsVAD dispatch_def
          ProcessASR_def callASRService_def getASRProcessor_def DefaultASRConfig_def Let_def)
       (simp add: late_env_def quiet_env_def asr_ok_def send2LLM_def guardedSend_def
          chanCapacity_def prompt_def resetVAD_def voiced_wsc_def served_wsc_def base_wsc_def
          idle_conn_def)
  have d: "\<forall>env data. handleAudioMessage env halted_wsc data = (None, halted_wsc, [])"
    using g by (simp add: handleAudioMessage_def)
  have s: "\<not> ClientVoiceStop (connectionState voiced_wsc)"
      "ClientVoiceStop (connectionState halted_wsc)"
      "ClientHaveVoice (connectionState halted_wsc)"
      "\<not> ClientVoiceStop (connectionState served_wsc)"
      "\<not> ClientHaveVoice (connectionState served_wsc)"
    by (simp_all add: voiced_wsc_def halted_wsc_def served_wsc_def base_wsc_def idle_conn_def)
  from f k d s t show ?thesis by blast
qed

text \<open>
  C6. While \<open>ASRServerReceive\<close> is false, \<open>handleAudioMessage\<close> drops the frame: it returns
  no error, makes no request, and leaves the whole connection as it was (the raw audio
  accumulator, the utterance queue, the voice flags, the dialogue history and the channels).
\<close>

theorem frame_dropped_while_not_accepting:
  assumes "\<not> ASRServerReceive (connectionState wsc)"
  shows "handleAudioMessage env wsc data = (None, wsc, [])"
  using assms by (simp add: handleAudioMessage_def)

theorem frame_dropped_while_not_accepting_witness:
  "\<not> ASRServerReceive (connectionState closed_wsc) \<and>
   handleAudioMessage flaky_env closed_wsc (replicate 2048 0) = (None, closed_wsc, [])"
proof -
  have h: "\<not> ASRServerReceive (connectionState closed_wsc)"
    by (simp add: closed_wsc_def)
  from frame_dropped_while_not_accepting [OF h] h show ?thesis by blast
qed

text \<open>
  C7, as the claim is written, fails: each stage reads \<open>ClientAbort\<close> once per iteration
  and then waits, and an abort that arrives during the wait does not stop the iteration under
  way. Mid-reply, the generation stage has passed its check (vad.go 386) and waits for the next
  line (392) when the abort command arrives; the line is the complete signal and the assistant
  turn is appended (437), although the flag is set and the stop frame is queued. Likewise the
  synthesis stage has passed its check (websocket.go 197) and waits for the synthesis service
  (203) when the abort command arrives; the two audio frames of the fragment are sent after
  the stop frame (219).
\<close>

theorem abort_during_wait_counterexample:
  "\<not> ClientAbort (connectionState speaking_wsc) \<and>
   interfere speaking_wsc (abort_arrives 0) = aborted_wsc \<and>
   ClientAbort (connectionState aborted_wsc) \<and>
   llm_loop_among abort_arrives 0 speaking_wsc ''Hello there'' [] [complete_line]
     = (None,
        aborted_wsc\<lparr>dialogueStore :=
          [\<lparr> Role = ''user'', Content = ''hi'' \<rparr>,
           \<lparr> Role = ''assistant'', Content = ''Hello there'' \<rparr>]\<rparr>,
        ''Hello there'', []) \<and>
   \<not> ClientAbort (connectionState taken_wsc) \<and>
   ClientAbort (connectionState (handleTTS_recv tts_interrupted taken_wsc ''Hello'')) \<and>
   responseChan (handleTTS_recv tts_interrupted taken_wsc ''Hello'')
     = responseChan aborted_wsc
         @ [\<lparr> MessageType = 2, Data = BinaryData [1, 2] \<rparr>,
            \<lparr> MessageType = 2, Data = BinaryData [3] \<rparr>]"
proof -
  have a: "interfere speaking_wsc (abort_arrives 0) = aborted_wsc"
    by (rule abort_mid_reply)
  have n: "\<not> ClientAbort (connectionState speaking_wsc)"
      "\<not> ClientAbort (connectionState taken_wsc)"
      "ClientAbort (connectionState aborted_wsc)"
    by (simp_all add: taken_wsc_def aborted_wsc_def speaking_wsc_def base_wsc_def idle_conn_def)
  have l: "llm_loop_among abort_arrives 0 speaking_wsc ''Hello there'' [] [complete_line]
     = (None,
        aborted_wsc\<lparr>dialogueStore :=
          [\<lparr> Role = ''user'', Content = ''hi'' \<rparr>,
           \<lparr> Role = ''assistant'', Content = ''Hello there'' \<rparr>]\<rparr>,
        ''Hello there'', [])"
    using n(1) by (simp add: complete_line_def a) (simp add: aborted_wsc_def speaking_wsc_def)
  have t: "interfere (taken_wsc\<lparr>connectionState :=
              (connectionState taken_wsc)\<lparr>StartSpeakTime := 5000\<rparr>\<rparr>) (abort_arrives 0)
         = aborted_wsc\<lparr>ttsChan := [''there''],
              connectionState := (connectionState aborted_wsc)\<lparr>StartSpeakTime := 5000\<rparr>\<rparr>"
    by (simp add: interfere_def abort_arrives_def handleTextMessage_def abort_env_def abort_cmd_def
          sendResponse_def guardedSend_def chanCapacity_def prompt_def zeroCommand_def Let_def
          TextMessage_def taken_wsc_def aborted_wsc_def speaking_wsc_def base_wsc_def idle_conn_def)
  have st: "StartSpeakTime (connectionState taken_wsc) = 0"
    by (simp add: taken_wsc_def speaking_wsc_def base_wsc_def idle_conn_def)
  have r: "handleTTS_recv tts_interrupted taken_wsc ''Hello''
     = aborted_wsc\<lparr>ttsChan := [''there''],
         connectionState := (connectionState aborted_wsc)
           \<lparr>StartSpeakTime := 5000, TTSDuration := 1000\<rparr>,
         responseChan := responseChan aborted_wsc
           @ [\<lparr> MessageType = 2, Data = BinaryData [1, 2] \<rparr>,
              \<lparr> MessageType = 2, Data = BinaryData [3] \<rparr>]\<rparr>"
    using n(2)
    by (simp add: handleTTS_recv_def TTS_def Let_def st tts_interrupted_def tts_ok_def t)
       (simp add: abort_arrives_def interfere_def sendResponse_def guardedSend_def
          chanCapacity_def prompt_def BinaryMessage_def aborted_wsc_def speaking_wsc_def
          base_wsc_def idle_conn_def)
  have "ClientAbort (connectionState (handleTTS_recv tts_interrupted taken_wsc ''Hello''))"
    unfolding r using n(3) by simp
  moreover have "responseChan (handleTTS_recv tts_interrupted taken_wsc ''Hello'')
     = responseChan aborted_wsc
         @ [\<lparr> MessageType = 2, Data = BinaryData [1, 2] \<rparr>,
            \<lparr> MessageType = 2, Data = BinaryData [3] \<rparr>]"
    unfolding r by simp
  ultimately show ?thesis using a n l by blast
qed

text \<open>
  C7, amended. The abort command sets \<open>ClientAbort\<close> in the same call, whatever becomes of
  the send; when the context is live and the response channel has room, the \<open>tts stop\<close>
  control frame is queued in that call and nothing else changes. Each stage reads the flag at
  one point of its iteration, and the abort takes effect there:
  \<^item> the generation loop that finds the flag set at the top of an iteration leaves at once,
    whatever lines are still to come and whatever the other goroutines do: no assistant turn is
    appended and no fragment is pushed;
  \<^item> when the flag is set while the loop waits for a line, that line is still handled, as if
    it were the last one, and nothing after it;
  \<^item> when the flag is set by the time the request of \<open>ProcessLLM\<close> has been answered, no
    assistant turn is appended to the dialogue history and no warning is logged;
  \<^item> a synthesis round that finds the flag set after taking its fragment drops the fragment:
    nothing is sent, the channels and the dialogue history stay as they are;
  \<^item> with the flag set and a live context, rounds that follow one another without other
    activity in between take one queued fragment each and send nothing.
\<close>

theorem abort_takes_effect_at_next_check:
  "(unmarshal u1 d1 = Some msg \<and> cmd_Type msg = ''abort''
      \<longrightarrow> fst (handleTextMessage u1 w1 d1) = None \<and>
          ClientAbort (connectionState (snd (handleTextMessage u1 w1 d1)))) \<and>
   (unmarshal u1 d1 = Some msg \<and> cmd_Type msg = ''abort'' \<and>
    \<not> ctx_done w1 \<and> length (responseChan w1) < chanCapacity
      \<longrightarrow> handleTextMessage u1 w1 d1 =
            (None,
             w1\<lparr>connectionState := (connectionState w1)\<lparr>ClientAbort := True\<rparr>,
                 responseChan := responseChan w1 @
                   [\<lparr> MessageType = TextMessage,
                      Data = JSONData (zeroCommand\<lparr>cmd_Type := ''tts'', cmd_State := ''stop'',
                               cmd_Session := SessionId (connectionState w1)\<rparr>) \<rparr>]\<rparr>)) \<and>
   (ClientAbort (connectionState w2)
      \<longrightarrow> llm_loop_among others2 k2 w2 full2 warns2 rest2 = (None, w2, full2, warns2)) \<and>
   (ClientAbort (connectionState (interfere w3 (others3 k3)))
      \<longrightarrow> llm_loop_among others3 k3 w3 full3 warns3 (line3 # rest3)
            = llm_loop_among others3 k3 w3 full3 warns3 [line3]) \<and>
   (ClientAbort (connectionState (interfere w4 (llm_requesting e4)))
      \<longrightarrow> dialogueStore (fst (snd (ProcessLLM e4 w4))) = dialogueStore w4 \<and>
          snd (snd (ProcessLLM e4 w4)) = []) \<and>
   (ClientAbort (connectionState w5)
      \<longrightarrow> responseChan (handleTTS_recv e5 w5 t5) = responseChan w5 \<and>
          ttsChan (handleTTS_recv e5 w5 t5) = ttsChan w5 \<and>
          llmChan (handleTTS_recv e5 w5 t5) = llmChan w5 \<and>
          dialogueStore (handleTTS_recv e5 w5 t5) = dialogueStore w5) \<and>
   (ClientAbort (connectionState w6) \<and> \<not> ctx_done w6 \<and>
    (\<forall>env \<in> set envs. tts_waiting env = [])
      \<longrightarrow> responseChan (handleTTS envs w6) = responseChan w6 \<and>
          ttsChan (handleTTS envs w6) = drop (length envs) (ttsChan w6) \<and>
          dialogueStore (handleTTS envs w6) = dialogueStore w6)"
proof (intro conjI impI)
  assume a: "unmarshal u1 d1 = Some msg \<and> cmd_Type msg = ''abort''"
  then show "fst (handleTextMessage u1 w1 d1) = None"
    "ClientAbort (connectionState (snd (handleTextMessage u1 w1 d1)))"
    by (simp_all add: handleTextMessage_def Let_def sendResponse_frame)
next
  assume "unmarshal u1 d1 = Some msg \<and> cmd_Type msg = ''abort'' \<and>
    \<not> ctx_done w1 \<and> length (responseChan w1) < chanCapacity"
  then show "handleTextMessage u1 w1 d1 =
            (None,
             w1\<lparr>connectionState := (connectionState w1)\<lparr>ClientAbort := True\<rparr>,
                 responseChan := responseChan w1 @
                   [\<lparr> MessageType = TextMessage,
                      Data = JSONData (zeroCommand\<lparr>cmd_Type := ''tts'', cmd_State := ''stop'',
                               cmd_Session := SessionId (connectionState w1)\<rparr>) \<rparr>]\<rparr>)"
    by (simp add: handleTextMessage_def sendResponse_room Let_def)
next
  assume "ClientAbort (connectionState w2)"
  then show "llm_loop_among others2 k2 w2 full2 warns2 rest2 = (None, w2, full2, warns2)"
    by (rule llm_loop_among_abort)
next
  assume "ClientAbort (connectionState (interfere w3 (others3 k3)))"
  then show "llm_loop_among others3 k3 w3 full3 warns3 (line3 # rest3)
            = llm_loop_among others3 k3 w3 full3 warns3 [line3]"
    by (rule llm_loop_among_late)
next
  assume a: "ClientAbort (connectionState (interfere w4 (llm_requesting e4)))"
  from ProcessLLM_abort [OF a]
  show "dialogueStore (fst (snd (ProcessLLM e4 w4))) = dialogueStore w4"
    "snd (snd (ProcessLLM e4 w4)) = []"
    by simp_all
next
  assume a: "ClientAbort (connectionState w5)"
  then show "responseChan (handleTTS_recv e5 w5 t5) = responseChan w5"
    "ttsChan (handleTTS_recv e5 w5 t5) = ttsChan w5"
    "llmChan (handleTTS_recv e5 w5 t5) = llmChan w5"
    "dialogueStore (handleTTS_recv e5 w5 t5) = dialogueStore w5"
    by (simp_all add: handleTTS_recv_abort)
next
  assume a: "ClientAbort (connectionState w6) \<and> \<not> ctx_done w6 \<and>
    (\<forall>env \<in> set envs. tts_waiting env = [])"
  then show "responseChan (handleTTS envs w6) = responseChan w6"
    "ttsChan (handleTTS envs w6) = drop (length envs) (ttsChan w6)"
    "dialogueStore (handleTTS envs w6) = dialogueStore w6"
    using handleTTS_abort [of w6 envs] by simp_all
qed

theorem abort_takes_effect_at_next_check_witness:
  "handleTextMessage abort_env speaking_wsc [] = (None, aborted_wsc) \<and>
   ClientAbort (connectionState aborted_wsc) \<and> \<not> ctx_done aborted_wsc \<and>
   llm_loop_among abort_arrives 0 aborted_wsc ''Hello'' [] [complete_line]
     = (None, aborted_wsc, ''Hello'', []) \<and>
   ClientAbort (connectionState (interfere speaking_wsc (abort_arrives 0))) \<and>
   llm_loop_among abort_arrives 0 speaking_wsc [] [] [Parsed streaming_resp, complete_line]
     = (None, aborted_wsc\<lparr>ttsChan := [''Hello'', ''there'', ''more'']\<rparr>, ''more'', []) \<and>
   ClientAbort (connectionState (interfere speaking_wsc (llm_requesting llm_interrupted))) \<and>
   dialogueStore (fst (snd (ProcessLLM llm_interrupted speaking_wsc)))
     = [\<lparr> Role = ''user'', Content = ''hi'' \<rparr>] \<and>
   snd (snd (ProcessLLM llm_interrupted speaking_wsc)) = [] \<and>
   responseChan (handleTTS_recv tts_ok aborted_wsc ''Hello'') = responseChan aborted_wsc \<and>
   ttsChan (handleTTS_recv tts_ok aborted_wsc ''Hello'') = [''Hello'', ''there''] \<and>
   tts_waiting tts_ok = [] \<and>
   responseChan (handleTTS [tts_ok, tts_ok] aborted_wsc) = responseChan aborted_wsc \<and>
   ttsChan (handleTTS [tts_ok, tts_ok] aborted_wsc) = [] \<and>
   dialogueStore (handleTTS [tts_ok, tts_ok] aborted_wsc) = [\<lparr> Role = ''user'', Content = ''hi'' \<rparr>]"
proof -
  note T = abort_takes_effect_at_next_check
      [where ?u1.0 = abort_env and ?d1.0 = "[]" and msg = abort_cmd and ?w1.0 = speaking_wsc
         and ?w2.0 = aborted_wsc and ?others2.0 = abort_arrives and ?k2.0 = 0
         and ?full2.0 = "''Hello''" and ?warns2.0 = "[]" and ?rest2.0 = "[complete_line]"
         and ?w3.0 = speaking_wsc and ?others3.0 = abort_arrives and ?k3.0 = 0
         and ?full3.0 = "[]" and ?warns3.0 = "[]" and ?line3.0 = "Parsed streaming_resp"
         and ?rest3.0 = "[complete_line]"
         and ?w4.0 = speaking_wsc and ?e4.0 = llm_interrupted
         and ?w5.0 = aborted_wsc and ?e5.0 = tts_ok and ?t5.0 = "''Hello''"
         and ?w6.0 = aborted_wsc and envs = "[tts_ok, tts_ok]"]
  have h1: "unmarshal abort_env [] = Some abort_cmd \<and> cmd_Type abort_cmd = ''abort'' \<and>
            \<not> ctx_done speaking_wsc \<and> length (responseChan speaking_wsc) < chanCapacity"
    by (simp add: abort_env_def abort_cmd_def speaking_wsc_def base_wsc_def chanCapacity_def)
  have h2: "ClientAbort (connectionState aborted_wsc)" "\<not> ctx_done aborted_wsc"
    by (simp_all add: aborted_wsc_def speaking_wsc_def base_wsc_def)
  have h3: "ClientAbort (connectionState (interfere speaking_wsc (abort_arrives 0)))"
      "ClientAbort (connectionState (interfere speaking_wsc (llm_requesting llm_interrupted)))"
    by (simp_all add: abort_mid_reply h2)
  have h4: "\<forall>env \<in> set [tts_ok, tts_ok]. tts_waiting env = []"
    by (simp add: tts_ok_def)
  from T h1 have "handleTextMessage abort_env speaking_wsc [] =
      (None,
       speaking_wsc\<lparr>connectionState := (connectionState speaking_wsc)\<lparr>ClientAbort := True\<rparr>,
                 responseChan := responseChan speaking_wsc @
                   [\<lparr> MessageType = TextMessage,
                      Data = JSONData (zeroCommand\<lparr>cmd_Type := ''tts'', cmd_State := ''stop'',
                               cmd_Session := SessionId (connectionState speaking_wsc)\<rparr>) \<rparr>]\<rparr>)"
    by blast
  then have c1: "handleTextMessage abort_env speaking_wsc [] = (None, aborted_wsc)"
    by (simp add: aborted_wsc_def speaking_wsc_def base_wsc_def idle_conn_def TextMessage_def)
  from T h2 have c2: "llm_loop_among abort_arrives 0 aborted_wsc ''Hello'' [] [complete_line]
      = (None, aborted_wsc, ''Hello'', [])"
    by blast
  from T h3 have "llm_loop_among abort_arrives 0 speaking_wsc [] [] (Parsed streaming_resp # [complete_line])
      = llm_loop_among abort_arrives 0 speaking_wsc [] [] [Parsed streaming_resp]"
    by blast
  then have c3: "llm_loop_among abort_arrives 0 speaking_wsc [] [] [Parsed streaming_resp, complete_line]
      = (None, aborted_wsc\<lparr>ttsChan := [''Hello'', ''there'', ''more'']\<rparr>, ''more'', [])"
    by (simp add: streaming_resp_def abort_mid_reply)
       (simp add: aborted_wsc_def speaking_wsc_def base_wsc_def idle_conn_def chanCapacity_def)
  from T h3 have "dialogueStore (fst (snd (ProcessLLM llm_interrupted speaking_wsc)))
      = dialogueStore speaking_wsc"
      and c5: "snd (snd (ProcessLLM llm_interrupted speaking_wsc)) = []"
    by blast+
  then have c4: "dialogueStore (fst (snd (ProcessLLM llm_interrupted speaking_wsc)))
      = [\<lparr> Role = ''user'', Content = ''hi'' \<rparr>]"
    by (simp add: speaking_wsc_def)
  from T h2 have "responseChan (handleTTS_recv tts_ok aborted_wsc ''Hello'') = responseChan aborted_wsc"
      "ttsChan (handleTTS_recv tts_ok aborted_wsc ''Hello'') = ttsChan aborted_wsc"
    by blast+
  then have c6: "responseChan (handleTTS_recv tts_ok aborted_wsc ''Hello'') = responseChan aborted_wsc"
      "ttsChan (handleTTS_recv tts_ok aborted_wsc ''Hello'') = [''Hello'', ''there'']"
    by (simp_all add: aborted_wsc_def speaking_wsc_def)
  from T h2 h4 have c7: "responseChan (handleTTS [tts_ok, tts_ok] aborted_wsc) = responseChan aborted_wsc"
      "ttsChan (handleTTS [tts_ok, tts_ok] aborted_wsc) = drop (length [tts_ok, tts_ok]) (ttsChan aborted_wsc)"
      "dialogueStore (handleTTS [tts_ok, tts_ok] aborted_wsc) = dialogueStore aborted_wsc"
    by blast+
  have c8: "ttsChan (handleTTS [tts_ok, tts_ok] aborted_wsc) = []"
      "dialogueStore (handleTTS [tts_ok, tts_ok] aborted_wsc) = [\<lparr> Role = ''user'', Content = ''hi'' \<rparr>]"
    unfolding c7 by (simp_all add: aborted_wsc_def speaking_wsc_def)
  have h5: "tts_waiting tts_ok = []"
    by (simp add: tts_ok_def)
  from c1 h2 c2 h3 c3 c4 c5 c6 h5 c7(1) c8 show ?thesis by blast
qed



text \<open>
  C9, as the claim is written, fails: a frame can complete two windows, and when the request
  for the first one fails while the second is classified as voiced, \<open>IsVAD\<close> returns true.
\<close>

theorem IsVAD_failed_request_counterexample:
  "callVADService getVADProcessor (vad_http flaky_env 0) (replicate 1024 0) = Inl ErrVADSend \<and>
   fst (IsVAD flaky_env idle_conn (replicate 2048 0))"
proof -
  have pcm: "pcmData flaky_env (replicate 2048 0) = replicate 2048 0"
    by (simp add: pcmData_def flaky_env_def quiet_env_def)
  have buf: "ClientAudioBuffer idle_conn = []" by (simp add: idle_conn_def)
  have "fst (IsVAD flaky_env idle_conn (replicate 2048 0))"
    by (subst IsVAD_last) (simp_all add: pcm buf, simp add: callVADService_def flaky_env_def Let_def)
  moreover have "callVADService getVADProcessor (vad_http flaky_env 0) (replicate 1024 0) = Inl ErrVADSend"
    by (simp add: callVADService_def flaky_env_def Let_def)
  ultimately show ?thesis by simp
qed

text \<open>
  C9, amended. \<open>IsVAD\<close> returns false for a frame that leaves the accumulator below one
  analysis window (1024 bytes), and whenever the voice-activity request for the last window
  that the frame completes fails. Consequently a frame that arrives in automatic mode while
  has-voice is false, and completes no window, is discarded: the handler returns through the
  no-voice branch and the utterance queue is empty afterwards.
\<close>

theorem IsVAD_false_and_frame_discarded:
  "(length (ClientAudioBuffer c1) + length (pcmData e1 d1) < 1024
      \<longrightarrow> IsVAD e1 c1 d1 = (False, c1\<lparr>ClientAudioBuffer := ClientAudioBuffer c1 @ pcmData e1 d1\<rparr>)) \<and>
   (1024 \<le> length (ClientAudioBuffer c2) + length (pcmData e2 d2) \<and>
    callVADService getVADProcessor
       (vad_http e2 ((length (ClientAudioBuffer c2) + length (pcmData e2 d2)) div 1024 - 1))
       (take 1024 (drop (((length (ClientAudioBuffer c2) + length (pcmData e2 d2)) div 1024 - 1) * 1024)
                     (ClientAudioBuffer c2 @ pcmData e2 d2))) = Inl err
      \<longrightarrow> \<not> fst (IsVAD e2 c2 d2)) \<and>
   (ASRServerReceive (connectionState w3) \<and> ClientListenMode (connectionState w3) = ''auto'' \<and>
    \<not> ClientHaveVoice (connectionState w3) \<and>
    length (ClientAudioBuffer (connectionState w3)) + length (pcmData e3 d3) < 1024
      \<longrightarrow> handleAudioMessage e3 w3 d3 =
            (None,
             w3\<lparr>connectionState := noVoice e3 (config w3)
                  ((connectionState w3)\<lparr>ClientAudioBuffer :=
                      ClientAudioBuffer (connectionState w3) @ pcmData e3 d3\<rparr>)\<rparr>,
             []) \<and>
          ASRAudio (connectionState (fst (snd (handleAudioMessage e3 w3 d3)))) = [])"
proof (intro conjI impI)
  assume "length (ClientAudioBuffer c1) + length (pcmData e1 d1) < 1024"
  then show "IsVAD e1 c1 d1 = (False, c1\<lparr>ClientAudioBuffer := ClientAudioBuffer c1 @ pcmData e1 d1\<rparr>)"
    by (rule IsVAD_short)
next
  assume a: "1024 \<le> length (ClientAudioBuffer c2) + length (pcmData e2 d2) \<and>
    callVADService getVADProcessor
       (vad_http e2 ((length (ClientAudioBuffer c2) + length (pcmData e2 d2)) div 1024 - 1))
       (take 1024 (drop (((length (ClientAudioBuffer c2) + length (pcmData e2 d2)) div 1024 - 1) * 1024)
                     (ClientAudioBuffer c2 @ pcmData e2 d2))) = Inl err"
  then show "\<not> fst (IsVAD e2 c2 d2)"
    using IsVAD_last [of c2 e2 d2] by simp
next
  assume a: "ASRServerReceive (connectionState w3) \<and> ClientListenMode (connectionState w3) = ''auto'' \<and>
    \<not> ClientHaveVoice (connectionState w3) \<and>
    length (ClientAudioBuffer (connectionState w3)) + length (pcmData e3 d3) < 1024"
  then have isv: "IsVAD e3 (connectionState w3) d3 =
      (False, (connectionState w3)\<lparr>ClientAudioBuffer :=
                      ClientAudioBuffer (connectionState w3) @ pcmData e3 d3\<rparr>)"
    by (intro IsVAD_short) simp
  show h: "handleAudioMessage e3 w3 d3 =
            (None,
             w3\<lparr>connectionState := noVoice e3 (config w3)
                  ((connectionState w3)\<lparr>ClientAudioBuffer :=
                      ClientAudioBuffer (connectionState w3) @ pcmData e3 d3\<rparr>)\<rparr>,
             [])"
    using a by (simp add: handleAudioMessage_def detectVoice_def isv)
  show "ASRAudio (connectionState (fst (snd (handleAudioMessage e3 w3 d3)))) = []"
    unfolding h by (simp add: noVoice_def Let_def)
qed

theorem IsVAD_false_and_frame_discarded_witness:
  "length (ClientAudioBuffer idle_conn) + length (pcmData quiet_env (replicate 100 0)) < 1024 \<and>
   IsVAD quiet_env idle_conn (replicate 100 0)
     = (False, idle_conn\<lparr>ClientAudioBuffer := replicate 100 0\<rparr>) \<and>
   callVADService getVADProcessor (vad_http deaf_env 0) (replicate 1024 0) = Inl ErrVADSend \<and>
   \<not> fst (IsVAD deaf_env idle_conn (replicate 1024 0)) \<and>
   ASRServerReceive (connectionState base_wsc) \<and>
   \<not> ClientHaveVoice (connectionState base_wsc) \<and>
   fst (handleAudioMessage quiet_env base_wsc (replicate 100 0)) = None \<and>
   ASRAudio (connectionState (fst (snd (handleAudioMessage quiet_env base_wsc (replicate 100 0))))) = []"
proof -
  have pcm: "pcmData quiet_env (replicate 100 0) = replicate 100 0"
       "pcmData deaf_env (replicate 1024 0) = replicate 1024 0"
    by (simp_all add: pcmData_def quiet_env_def deaf_env_def)
  have st: "ClientAudioBuffer idle_conn = []" "connectionState base_wsc = idle_conn"
       "ASRServerReceive idle_conn" "ClientListenMode idle_conn = ''auto''"
       "\<not> ClientHaveVoice idle_conn"
    by (simp_all add: idle_conn_def base_wsc_def)
  have h1: "length (ClientAudioBuffer idle_conn) + length (pcmData quiet_env (replicate 100 0)) < 1024"
    by (simp add: pcm st)
  have f: "callVADService getVADProcessor (vad_http deaf_env 0) (replicate 1024 0) = Inl ErrVADSend"
    by (simp add: callVADService_def deaf_env_def Let_def)
  have h2: "1024 \<le> length (ClientAudioBuffer idle_conn) + length (pcmData deaf_env (replicate 1024 0)) \<and>
    callVADService getVADProcessor
       (vad_http deaf_env ((length (ClientAudioBuffer idle_conn)
            + length (pcmData deaf_env (replicate 1024 0))) div 1024 - 1))
       (take 1024 (drop (((length (ClientAudioBuffer idle_conn)
            + length (pcmData deaf_env (replicate 1024 0))) div 1024 - 1) * 1024)
                     (ClientAudioBuffer idle_conn @ pcmData deaf_env (replicate 1024 0)))) = Inl ErrVADSend"
    by (simp add: pcm st f)
  have h3: "ASRServerReceive (connectionState base_wsc) \<and>
    ClientListenMode (connectionState base_wsc) = ''auto'' \<and>
    \<not> ClientHaveVoice (connectionState base_wsc) \<and>
    length (ClientAudioBuffer (connectionState base_wsc))
      + length (pcmData quiet_env (replicate 100 0)) < 1024"
    by (simp add: pcm st)
  note T = IsVAD_false_and_frame_discarded
         [of idle_conn quiet_env "replicate 100 0" idle_conn deaf_env "replicate 1024 0" ErrVADSend
             base_wsc quiet_env "replicate 100 0"]
  from T h1 have "IsVAD quiet_env idle_conn (replicate 100 0)
          = (False, idle_conn\<lparr>ClientAudioBuffer :=
               ClientAudioBuffer idle_conn @ pcmData quiet_env (replicate 100 0)\<rparr>)"
    by blast
  then have c1: "IsVAD quiet_env idle_conn (replicate 100 0)
          = (False, idle_conn\<lparr>ClientAudioBuffer := replicate 100 0\<rparr>)"
    by (simp add: pcm st)
  from T h2 have c2: "\<not> fst (IsVAD deaf_env idle_conn (replicate 1024 0))"
    by blast
  from T h3 have c3: "handleAudioMessage quiet_env base_wsc (replicate 100 0) =
            (None,
             base_wsc\<lparr>connectionState := noVoice quiet_env (config base_wsc)
                  ((connectionState base_wsc)\<lparr>ClientAudioBuffer :=
                      ClientAudioBuffer (connectionState base_wsc)
                        @ pcmData quiet_env (replicate 100 0)\<rparr>)\<rparr>,
             []) \<and>
          ASRAudio (connectionState (fst (snd (handleAudioMessage quiet_env base_wsc (replicate 100 0))))) = []"
    by blast
  then have c4: "fst (handleAudioMessage quiet_env base_wsc (replicate 100 0)) = None"
    by simp
  have s': "ASRServerReceive (connectionState base_wsc)" "\<not> ClientHaveVoice (connectionState base_wsc)"
    by (simp_all add: st)
  from h1 c1 f c2 s' c4 c3 show ?thesis by blast
qed

text \<open>
  C10. Calling \<open>ProcessASR\<close> with an empty utterance queue returns an error, makes no request to
  the recognition collaborator, and leaves the connection state as it was, whatever the
  collaborator would have answered.
\<close>

theorem ProcessASR_empty_queue:
  assumes "ASRAudio conn = []"
  shows "ProcessASR http conn = (Inl ErrNoAudio, conn, [])"
  using assms by (simp add: ProcessASR_def)

theorem ProcessASR_empty_queue_witness:
  "ASRAudio idle_conn = [] \<and>
   ProcessASR (asr_ok ''hi'') idle_conn = (Inl ErrNoAudio, idle_conn, [])"
  using ProcessASR_empty_queue [of idle_conn "asr_ok ''hi''"]
  by (simp add: idle_conn_def)

end
